theory Spec2Isabelle
  imports Complex_Main
begin

section \<open>Python values\<close>

text \<open>
  A Python \<open>str\<close> is modelled as the list of its Unicode code points, so that \<open>length\<close>
  is Python's \<open>len\<close>. ASCII literals are written with \<open>asc\<close>; the Russian messages of the
  source are given as code-point lists, with their meaning in a comment. The code point
  10060 is the cross mark that opens the error messages shown to the user.
\<close>

type_synonym pystr = "nat list"

definition asc :: "string \<Rightarrow> pystr" where
  "asc s = map of_char s"

text \<open>
  Exceptions: the class (as far as an \<open>except\<close> clause of the source distinguishes it)
  and the message \<open>str(e)\<close>. Every class here is a subclass of \<open>Exception\<close>.
\<close>

datatype exn_kind =
  ValueError | TypeError | InvalidOperation | OverflowError
  | AttributeError | KeyError | IndexError | OtherException

datatype exn = Exn exn_kind pystr

fun exn_kind_of :: "exn \<Rightarrow> exn_kind" where
  "exn_kind_of (Exn k m) = k"

fun exn_msg :: "exn \<Rightarrow> pystr" where
  "exn_msg (Exn k m) = m"

text \<open>
  The values of \<open>decimal.Decimal\<close> and of \<open>float\<close>: a finite number, an infinity or a
  NaN. Finite numbers are exact rationals: the model leaves out the rounding of Python's
  decimal context (28 significant digits) and of binary floating point.
\<close>

datatype num = Fin rat | PosInf | NegInf | NaN

text \<open>\<open>int(x)\<close>: truncation towards zero; infinities and NaN raise.\<close>

definition trunc :: "rat \<Rightarrow> int" where
  "trunc r = (if 0 \<le> r then \<lfloor>r\<rfloor> else \<lceil>r\<rceil>)"

fun py_int :: "num \<Rightarrow> exn + int" where
  "py_int (Fin r) = Inr (trunc r)"
| "py_int PosInf = Inl (Exn OverflowError (asc ''cannot convert Infinity to integer''))"
| "py_int NegInf = Inl (Exn OverflowError (asc ''cannot convert Infinity to integer''))"
| "py_int NaN = Inl (Exn ValueError (asc ''cannot convert NaN to integer''))"

text \<open>\<open>x * k\<close> for a positive integer \<open>k\<close> (the source only multiplies by \<open>10 ** decimals\<close>).\<close>

fun num_scale :: "num \<Rightarrow> nat \<Rightarrow> num" where
  "num_scale (Fin r) k = Fin (r * of_nat k)"
| "num_scale PosInf k = PosInf"
| "num_scale NegInf k = NegInf"
| "num_scale NaN k = NaN"

section \<open>utils.py: amounts and slippage\<close>

definition MIN_SLIPPAGE :: rat where "MIN_SLIPPAGE = 1 / 10"
definition MAX_SLIPPAGE :: rat where "MAX_SLIPPAGE = 10"
definition DEFAULT_SLIPPAGE :: rat where "DEFAULT_SLIPPAGE = 1"

text \<open>\<open>value <= 0\<close> on a \<open>Decimal\<close>: an ordered comparison with NaN signals InvalidOperation.\<close>

fun dec_le_zero :: "num \<Rightarrow> exn + bool" where
  "dec_le_zero (Fin r) = Inr (r \<le> 0)"
| "dec_le_zero PosInf = Inr False"
| "dec_le_zero NegInf = Inr True"
| "dec_le_zero NaN = Inl (Exn InvalidOperation (asc ''[<class decimal.InvalidOperation>]''))"

text \<open>Message prefix of \<open>to_lamports\<close>: "Invalid token amount: ".\<close>

definition msg_bad_tokens :: pystr where
  "msg_bad_tokens = [1053, 1077, 1074, 1077, 1088, 1085, 1086, 1077, 32, 1082, 1086, 1083,
     1080, 1095, 1077, 1089, 1090, 1074, 1086, 32, 1090, 1086, 1082, 1077, 1085, 1086, 1074,
     58, 32]"

text \<open>
  \<open>to_lamports(amount, decimals)\<close>. The argument \<open>Decimal_of\<close> stands for the library call
  \<open>Decimal(str(\<cdot>))\<close>, and \<open>amount\<close> is \<open>str(amount)\<close>; \<open>decimals\<close> is a natural number. The
  body of the \<open>try\<close> is \<open>to_lamports_body\<close>; the handler catches ValueError and
  InvalidOperation only, so the OverflowError of \<open>int(Infinity)\<close> propagates as it is.
\<close>

definition to_lamports_body :: "(pystr \<Rightarrow> exn + num) \<Rightarrow> pystr \<Rightarrow> nat \<Rightarrow> exn + int" where
  "to_lamports_body Decimal_of amount decimals =
     (case Decimal_of amount of
        Inl e \<Rightarrow> Inl e
      | Inr v \<Rightarrow>
          (case dec_le_zero v of
             Inl e \<Rightarrow> Inl e
           | Inr True \<Rightarrow> Inr 0
           | Inr False \<Rightarrow> py_int (num_scale v (10 ^ decimals))))"

definition to_lamports :: "(pystr \<Rightarrow> exn + num) \<Rightarrow> pystr \<Rightarrow> nat \<Rightarrow> exn + int" where
  "to_lamports Decimal_of amount decimals =
     (case to_lamports_body Decimal_of amount decimals of
        Inr l \<Rightarrow> Inr l
      | Inl e \<Rightarrow>
          (if exn_kind_of e = ValueError \<or> exn_kind_of e = InvalidOperation
           then Inl (Exn ValueError (msg_bad_tokens @ exn_msg e))
           else Inl e))"




section \<open>services/utils.py: the key vault\<close>

text \<open>
  The encryption library and the process environment are outside the repository:
  \<open>ENCRYPTION_KEY\<close> is the environment variable (\<open>None\<close> when unset), \<open>Fernet\<close> the
  constructor of the cipher (\<open>Some e\<close> when it raises \<open>e\<close>), and \<open>fernet_decrypt key s\<close>
  the composition \<open>cipher.decrypt(s.encode()).decode()\<close>.
\<close>

record crypto =
  ENCRYPTION_KEY :: "pystr option"
  Fernet :: "pystr \<Rightarrow> exn option"
  fernet_decrypt :: "pystr \<Rightarrow> pystr \<Rightarrow> exn + pystr"

text \<open>Message of \<open>get_encryption_cipher\<close>: "ENCRYPTION_KEY not found in the environment
  variables".\<close>

definition msg_no_encryption_key :: pystr where
  "msg_no_encryption_key = [69, 78, 67, 82, 89, 80, 84, 73, 79, 78, 95, 75, 69, 89, 32, 1085,
     1077, 32, 1085, 1072, 1081, 1076, 1077, 1085, 32, 1074, 32, 1087, 1077, 1088, 1077, 1084,
     1077, 1085, 1085, 1099, 1093, 32, 1086, 1082, 1088, 1091, 1078, 1077, 1085, 1080, 1103]"

text \<open>\<open>get_encryption_cipher()\<close> returns the key the cipher was built from.\<close>

definition get_encryption_cipher :: "crypto \<Rightarrow> exn + pystr" where
  "get_encryption_cipher c =
     (case ENCRYPTION_KEY c of
        None \<Rightarrow> Inl (Exn ValueError msg_no_encryption_key)
      | Some key \<Rightarrow>
          (if key = [] then Inl (Exn ValueError msg_no_encryption_key)
           else (case Fernet c key of Some e \<Rightarrow> Inl e | None \<Rightarrow> Inr key)))"

text \<open>The body of the \<open>try\<close> of \<open>decrypt_private_key\<close>.\<close>

definition decrypt_attempt :: "crypto \<Rightarrow> pystr \<Rightarrow> exn + pystr" where
  "decrypt_attempt c encrypted_key =
     (case get_encryption_cipher c of
        Inl e \<Rightarrow> Inl e
      | Inr key \<Rightarrow> fernet_decrypt c key encrypted_key)"

definition decrypt_private_key :: "crypto \<Rightarrow> pystr \<Rightarrow> exn + pystr" where
  "decrypt_private_key c encrypted_key =
     (case decrypt_attempt c encrypted_key of
        Inr result \<Rightarrow> Inr result
      | Inl e \<Rightarrow>
          (if length encrypted_key \<ge> 40 \<and> length encrypted_key \<le> 90
           then Inr encrypted_key
           else Inl e))"

section \<open>Strings and JSON values\<close>

text \<open>\<open>s.startswith(p)\<close> and the substring test \<open>p in s\<close>.\<close>

definition starts_with :: "pystr \<Rightarrow> pystr \<Rightarrow> bool" where
  "starts_with p s = (take (length p) s = p)"

fun substr_in :: "pystr \<Rightarrow> pystr \<Rightarrow> bool" where
  "substr_in p [] = (p = [])"
| "substr_in p (x # xs) = (starts_with p (x # xs) \<or> substr_in p xs)"

text \<open>
  \<open>find_split sep s\<close> cuts \<open>s\<close> at the first occurrence of \<open>sep\<close>: the text before it and
  the text after it, or \<open>None\<close> when \<open>sep\<close> does not occur.
\<close>

fun find_split :: "pystr \<Rightarrow> pystr \<Rightarrow> (pystr \<times> pystr) option" where
  "find_split sep [] = (if sep = [] then Some ([], []) else None)"
| "find_split sep (x # xs) =
     (if starts_with sep (x # xs) then Some ([], drop (length sep) (x # xs))
      else (case find_split sep xs of
              None \<Rightarrow> None
            | Some (before, after) \<Rightarrow> Some (x # before, after)))"

text \<open>\<open>s.split(sep)[0]\<close> and \<open>s.split(sep)[1]\<close> (the latter only used when \<open>sep in s\<close>).\<close>

definition split_0 :: "pystr \<Rightarrow> pystr \<Rightarrow> pystr" where
  "split_0 sep s = (case find_split sep s of None \<Rightarrow> s | Some (before, after) \<Rightarrow> before)"

definition split_1 :: "pystr \<Rightarrow> pystr \<Rightarrow> exn + pystr" where
  "split_1 sep s =
     (case find_split sep s of
        None \<Rightarrow> Inl (Exn IndexError (asc ''list index out of range''))
      | Some (before, after) \<Rightarrow> Inr (split_0 sep after))"

text \<open>\<open>str(n)\<close> for an integer.\<close>

function str_nat :: "nat \<Rightarrow> pystr" where
  "str_nat n = (if n < 10 then [48 + n] else str_nat (n div 10) @ [48 + n mod 10])"
  by pat_completeness auto
termination
  by (relation "measure (\<lambda>n. n)") auto

declare str_nat.simps [simp del]

definition str_int :: "int \<Rightarrow> pystr" where
  "str_int i = (if i < 0 then 45 # str_nat (nat (- i)) else str_nat (nat i))"

text \<open>
  What \<open>response.json()\<close> yields. Objects keep their members as an association list;
  \<open>map_of\<close> reads a key.
\<close>

datatype json =
  JNull | JBool bool | JInt int | JFloat num | JStr pystr
  | JArr "json list" | JObj "(pystr \<times> json) list"

text \<open>Truth value of an object in a condition (\<open>if not x\<close>).\<close>

fun py_truthy :: "json \<Rightarrow> bool" where
  "py_truthy JNull = False"
| "py_truthy (JBool b) = b"
| "py_truthy (JInt i) = (i \<noteq> 0)"
| "py_truthy (JFloat (Fin r)) = (r \<noteq> 0)"
| "py_truthy (JFloat x) = True"
| "py_truthy (JStr s) = (s \<noteq> [])"
| "py_truthy (JArr xs) = (xs \<noteq> [])"
| "py_truthy (JObj kvs) = (kvs \<noteq> [])"

fun type_name :: "json \<Rightarrow> pystr" where
  "type_name JNull = asc ''NoneType''"
| "type_name (JBool b) = asc ''bool''"
| "type_name (JInt i) = asc ''int''"
| "type_name (JFloat x) = asc ''float''"
| "type_name (JStr s) = asc ''str''"
| "type_name (JArr xs) = asc ''list''"
| "type_name (JObj kvs) = asc ''dict''"

text \<open>
  \<open>d.get(key, default)\<close>, \<open>key in d\<close> and \<open>d[key]\<close> for a string key. Only a dictionary has
  \<open>get\<close>; \<open>in\<close> is membership on a list and the substring test on a string; the other
  cases raise. The texts of the interpreter's own exceptions are abbreviated.
\<close>

fun dict_get :: "json \<Rightarrow> pystr \<Rightarrow> json \<Rightarrow> exn + json" where
  "dict_get (JObj kvs) key dflt = (case map_of kvs key of None \<Rightarrow> Inr dflt | Some v \<Rightarrow> Inr v)"
| "dict_get j key dflt = Inl (Exn AttributeError (type_name j @ asc '' object has no attribute get''))"

fun key_in :: "pystr \<Rightarrow> json \<Rightarrow> exn + bool" where
  "key_in key (JObj kvs) = Inr (key \<in> set (map fst kvs))"
| "key_in key (JArr xs) = Inr (JStr key \<in> set xs)"
| "key_in key (JStr s) = Inr (substr_in key s)"
| "key_in key j = Inl (Exn TypeError (asc ''argument of type '' @ type_name j @ asc '' is not iterable''))"

fun subscript :: "json \<Rightarrow> pystr \<Rightarrow> exn + json" where
  "subscript (JObj kvs) key = (case map_of kvs key of None \<Rightarrow> Inl (Exn KeyError key) | Some v \<Rightarrow> Inr v)"
| "subscript (JArr xs) key = Inl (Exn TypeError (asc ''list indices must be integers or slices, not str''))"
| "subscript (JStr s) key = Inl (Exn TypeError (asc ''string indices must be integers, not str''))"
| "subscript j key = Inl (Exn TypeError (type_name j @ asc '' object is not subscriptable''))"

section \<open>The boundary: network, chain client and libraries\<close>

text \<open>
  An HTTP response: its status and what \<open>json()\<close> yields (or raises).
\<close>

record http_resp =
  status :: nat
  body :: "exn + json"

text \<open>
  The instructions \<open>send_spl_token\<close> puts into a transaction:
  \<open>create_associated_token_account(payer, owner, mint)\<close> and
  \<open>transfer(TransferParams(source, dest, owner, amount))\<close>.
\<close>

datatype instruction =
    CreateAssociatedTokenAccount pystr pystr pystr
  | Transfer pystr pystr pystr int

text \<open>
  Every call that leaves the process is recorded as an event, in order, together with
  the pauses of \<open>asyncio.sleep\<close> (in seconds). A call is recorded when it is made, whether
  it then returns or raises.
\<close>

datatype event =
    EvHttpGet pystr "(pystr \<times> pystr) list"
  | EvHttpPost pystr json
  | EvSendRaw "nat list"
  | EvSigStatus pystr
  | EvGetLatestBlockhash
  | EvTokenBalance pystr pystr
  | EvGetTokenSupply pystr
  | EvGetAccountInfo pystr
  | EvSendTransaction "instruction list" pystr
  | EvSleep nat

text \<open>
  The world outside \<open>jupiter_service.py\<close> and \<open>solana_client.py\<close>. The answer of a remote
  party may depend on everything that happened before, so each remote call takes the
  list of events so far. Library calls are functions of their arguments:
  \<^item> \<open>py_strip\<close>, \<open>py_upper\<close>, \<open>py_lower\<close>: the methods of \<open>str\<close>; \<open>py_repr\<close>: \<open>str(x)\<close> of a value
    that is not a string; \<open>py_float\<close>: \<open>float(s)\<close>; \<open>format_6f\<close>: the format \<open>:.6f\<close>;
  \<^item> \<open>b58decode\<close>, \<open>PublicKey\<close> (yielding \<open>str\<close> of the key), \<open>decode_transaction\<close>
    (\<open>Transaction.deserialize(base64.b64decode(s))\<close>), \<open>keypair_from_b58\<close>
    (\<open>Keypair.from_secret_key(base58.b58decode(s))\<close>), \<open>sign_serialize\<close> (\<open>tx.sign(wallet)\<close>
    then \<open>tx.serialize()\<close>);
  \<^item> \<open>SOLANA_TOKEN_ADDRESSES\<close>: the symbol table of \<open>config.py\<close>, whose module is not in
    the repository's sources;
  \<^item> \<open>http_get\<close>, \<open>http_post\<close>: the HTTP clients; \<open>send_raw_transaction\<close> (yielding the
    signature as a string), \<open>get_latest_blockhash\<close> (\<open>None\<close>: a response without
    \<open>value.blockhash\<close>): the RPC client;
  \<^item> \<open>get_token_balance\<close>: the method of that name (jupiter_service.py, line 801), which
    only queries the RPC endpoint; its result (balance in smallest units, decimals) is
    taken as given.
\<close>

record world =
  crypto_of :: crypto
  JUPITER_API_URL :: pystr
  SOLANA_RPC_URL :: pystr
  SOLANA_TOKEN_ADDRESSES :: "pystr \<Rightarrow> pystr option"
  py_strip :: "pystr \<Rightarrow> pystr"
  py_upper :: "pystr \<Rightarrow> pystr"
  py_lower :: "pystr \<Rightarrow> pystr"
  py_repr :: "json \<Rightarrow> pystr"
  py_float :: "pystr \<Rightarrow> exn + num"
  format_6f :: "rat \<Rightarrow> pystr"
  b58decode :: "pystr \<Rightarrow> exn + nat list"
  PublicKey :: "pystr \<Rightarrow> exn + pystr"
  decode_transaction :: "pystr \<Rightarrow> exn + nat list"
  keypair_from_b58 :: "pystr \<Rightarrow> exn + nat list"
  sign_serialize :: "nat list \<Rightarrow> nat list \<Rightarrow> exn + nat list"
  http_get :: "event list \<Rightarrow> pystr \<Rightarrow> (pystr \<times> pystr) list \<Rightarrow> exn + http_resp"
  http_post :: "event list \<Rightarrow> pystr \<Rightarrow> json \<Rightarrow> exn + http_resp"
  send_raw_transaction :: "event list \<Rightarrow> nat list \<Rightarrow> exn + pystr"
  get_latest_blockhash :: "event list \<Rightarrow> exn + pystr option"
  get_token_balance :: "event list \<Rightarrow> pystr \<Rightarrow> pystr \<Rightarrow> exn + int \<times> nat"

text \<open>\<open>str(x)\<close> of a JSON value.\<close>

definition py_str :: "world \<Rightarrow> json \<Rightarrow> pystr" where
  "py_str w j = (case j of JStr s \<Rightarrow> s | _ \<Rightarrow> py_repr w j)"

definition quote_api_url :: "world \<Rightarrow> pystr" where
  "quote_api_url w = JUPITER_API_URL w @ asc ''quote''"

definition swap_api_url :: "world \<Rightarrow> pystr" where
  "swap_api_url w = JUPITER_API_URL w @ asc ''swap''"

definition JUPITER_PLATFORM_FEE_BPS :: int where
  "JUPITER_PLATFORM_FEE_BPS = 90"

definition JUPITER_PLATFORM_FEE_ACCOUNT :: pystr where
  "JUPITER_PLATFORM_FEE_ACCOUNT = asc ''CSBQ7WT45JS8nrn9nXi2K4FVmpxd2Bq7BDT1x3ECi5p4''"

definition SOL_MINT :: pystr where
  "SOL_MINT = asc ''So11111111111111111111111111111111111111112''"

definition BONK_MINT :: pystr where
  "BONK_MINT = asc ''DezXAZ8z7PnrnRJjz3wXBoRgixCa6xjnB7YaB1pPB263''"

definition USDC_MINT :: pystr where
  "USDC_MINT = asc ''EPjFWdd5AufqSSqeM2qN1xzybapC8G4wEGGkZwyTDt1v''"

definition USDT_MINT :: pystr where
  "USDT_MINT = asc ''Es9vMFrzaCERmJfrF4H2FYD4KCoNkY11McCe8BenwNYB''"

section \<open>utils.py: validate_slippage\<close>

text \<open>The argument of \<open>validate_slippage\<close>: \<open>None\<close>, a float or a string.\<close>

datatype slippage_arg = SlipNone | SlipFloat num | SlipStr pystr

text \<open>The float comparisons \<open>x < c\<close> and \<open>x > c\<close>; both are false on NaN.\<close>

fun num_less :: "num \<Rightarrow> rat \<Rightarrow> bool" where
  "num_less (Fin r) c = (r < c)"
| "num_less PosInf c = False"
| "num_less NegInf c = True"
| "num_less NaN c = False"

fun num_greater :: "num \<Rightarrow> rat \<Rightarrow> bool" where
  "num_greater (Fin r) c = (r > c)"
| "num_greater PosInf c = True"
| "num_greater NegInf c = False"
| "num_greater NaN c = False"

text \<open>Messages: "Slippage must be between 0.1% and 10.0%" and "Invalid slippage value: ".\<close>

definition msg_slippage_range :: pystr where
  "msg_slippage_range = [83, 108, 105, 112, 112, 97, 103, 101, 32, 1076, 1086, 1083, 1078,
     1077, 1085, 32, 1073, 1099, 1090, 1100, 32, 1084, 1077, 1078, 1076, 1091, 32, 48, 46, 49,
     37, 32, 1080, 32, 49, 48, 46, 48, 37]"

definition msg_bad_slippage :: pystr where
  "msg_bad_slippage = [1053, 1077, 1074, 1077, 1088, 1085, 1086, 1077, 32, 1079, 1085, 1072,
     1095, 1077, 1085, 1080, 1077, 32, 115, 108, 105, 112, 112, 97, 103, 101, 58, 32]"

text \<open>\<open>float(slippage)\<close>; \<open>to_float\<close> stands for the library's \<open>float\<close> on a string.\<close>

fun slippage_float :: "(pystr \<Rightarrow> exn + num) \<Rightarrow> slippage_arg \<Rightarrow> exn + num" where
  "slippage_float to_float SlipNone = Inl (Exn TypeError (asc ''float() argument must be a string or a real number''))"
| "slippage_float to_float (SlipFloat x) = Inr x"
| "slippage_float to_float (SlipStr s) = to_float s"

definition validate_slippage_body :: "(pystr \<Rightarrow> exn + num) \<Rightarrow> slippage_arg \<Rightarrow> exn + num" where
  "validate_slippage_body to_float slippage =
     (if slippage = SlipNone then Inr (Fin DEFAULT_SLIPPAGE)
      else (case slippage_float to_float slippage of
              Inl e \<Rightarrow> Inl e
            | Inr slip \<Rightarrow>
                (if num_less slip MIN_SLIPPAGE \<or> num_greater slip MAX_SLIPPAGE
                 then Inl (Exn ValueError msg_slippage_range)
                 else Inr slip)))"

definition validate_slippage :: "(pystr \<Rightarrow> exn + num) \<Rightarrow> slippage_arg \<Rightarrow> exn + num" where
  "validate_slippage to_float slippage =
     (case validate_slippage_body to_float slippage of
        Inr slip \<Rightarrow> Inr slip
      | Inl e \<Rightarrow>
          (if exn_kind_of e = ValueError
           then Inl (Exn ValueError (msg_bad_slippage @ exn_msg e))
           else Inl e))"

section \<open>jupiter_service.py: quotes, anchors and decimals\<close>

text \<open>Message of \<open>get_best_route\<close>: "Wrong format of the token address: ".\<close>

definition msg_bad_token_format :: pystr where
  "msg_bad_token_format = [1053, 1077, 1074, 1077, 1088, 1085, 1099, 1081, 32, 1092, 1086,
     1088, 1084, 1072, 1090, 32, 1072, 1076, 1088, 1077, 1089, 1072, 32, 1090, 1086, 1082, 1077,
     1085, 1072, 58, 32]"

text \<open>The query of \<open>get_best_route\<close>; \<open>bps\<close> is \<open>int(slippage * 100)\<close>.\<close>

definition route_params :: "pystr \<Rightarrow> pystr \<Rightarrow> pystr \<Rightarrow> int \<Rightarrow> (pystr \<times> pystr) list" where
  "route_params input_mint output_mint amount bps =
     [(asc ''inputMint'', input_mint),
      (asc ''outputMint'', output_mint),
      (asc ''amount'', amount),
      (asc ''slippageBps'', str_int bps),
      (asc ''platformFeeBps'', str_int JUPITER_PLATFORM_FEE_BPS),
      (asc ''platformFeeAccount'', JUPITER_PLATFORM_FEE_ACCOUNT)]"

text \<open>What \<open>get_best_route\<close> does with the response of the aggregator.\<close>

definition route_of_response :: "world \<Rightarrow> exn + http_resp \<Rightarrow> exn + json" where
  "route_of_response w r =
     (case r of
        Inl e \<Rightarrow> Inl e
      | Inr response \<Rightarrow>
          (if status response \<noteq> 200
           then (case body response of
                   Inl e \<Rightarrow> Inl e
                 | Inr error_data \<Rightarrow>
                     (case dict_get error_data (asc ''error'') (JStr (asc ''Unknown error'')) of
                        Inl e \<Rightarrow> Inl e
                      | Inr error_msg \<Rightarrow>
                          Inl (Exn OtherException (asc ''Jupiter API error: '' @ py_str w error_msg))))
           else (case body response of
                   Inl e \<Rightarrow> Inl e
                 | Inr result \<Rightarrow>
                     (case key_in (asc ''platformFee'') result of
                        Inl e \<Rightarrow> Inl e
                      | Inr False \<Rightarrow> Inr result
                      | Inr True \<Rightarrow>
                          (case subscript result (asc ''platformFee'') of
                             Inl e \<Rightarrow> Inl e
                           | Inr fee \<Rightarrow>
                               (case subscript fee (asc ''amount'') of
                                  Inl e \<Rightarrow> Inl e
                                | Inr fee_amount \<Rightarrow> Inr result))))))"

text \<open>
  \<open>get_best_route(input_mint, output_mint, amount, slippage)\<close>; \<open>amount\<close> is \<open>str(amount)\<close>.
  Both handlers of the function raise again what they caught, so every exception
  propagates. The only check made before the request is \<open>PublicKey(output_mint)\<close>.
\<close>

definition get_best_route ::
  "world \<Rightarrow> event list \<Rightarrow> pystr \<Rightarrow> pystr \<Rightarrow> pystr \<Rightarrow> num \<Rightarrow> (exn + json) \<times> event list" where
  "get_best_route w tr input_mint output_mint amount slippage =
     (case PublicKey w output_mint of
        Inl e \<Rightarrow> (Inl (Exn ValueError (msg_bad_token_format @ output_mint)), tr)
      | Inr key \<Rightarrow>
          (case py_int (num_scale slippage 100) of
             Inl e \<Rightarrow> (Inl e, tr)
           | Inr bps \<Rightarrow>
               (route_of_response w
                  (http_get w tr (quote_api_url w) (route_params input_mint output_mint amount bps)),
                tr @ [EvHttpGet (quote_api_url w) (route_params input_mint output_mint amount bps)])))"

text \<open>Messages of \<open>get_blockhash_with_retry\<close>: "Error: wrong format of the RPC response",
  "Could not get a blockhash after " and " attempts".\<close>

definition msg_bad_rpc_format :: pystr where
  "msg_bad_rpc_format = [10060, 32, 1054, 1096, 1080, 1073, 1082, 1072, 58, 32, 1085, 1077,
     1074, 1077, 1088, 1085, 1099, 1081, 32, 1092, 1086, 1088, 1084, 1072, 1090, 32, 1086, 1090,
     1074, 1077, 1090, 1072, 32, 1086, 1090, 32, 82, 80, 67]"

definition msg_no_blockhash :: pystr where
  "msg_no_blockhash = [10060, 32, 1053, 1077, 32, 1091, 1076, 1072, 1083, 1086, 1089, 1100, 32,
     1087, 1086, 1083, 1091, 1095, 1080, 1090, 1100, 32, 98, 108, 111, 99, 107, 104, 97, 115,
     104, 32, 1087, 1086, 1089, 1083, 1077, 32]"

definition msg_attempts :: pystr where
  "msg_attempts = [32, 1087, 1086, 1087, 1099, 1090, 1086, 1082]"

text \<open>
  \<open>get_blockhash_with_retry(max_retries)\<close>: the loop \<open>for attempt in range(max_retries)\<close>,
  from \<open>attempt\<close> on. \<open>Inr None\<close> is the \<open>None\<close> a Python function returns when its loop ends
  without a \<open>return\<close>.
\<close>

function blockhash_loop ::
  "world \<Rightarrow> nat \<Rightarrow> nat \<Rightarrow> event list \<Rightarrow> (exn + pystr option) \<times> event list" where
  "blockhash_loop w max_retries attempt tr =
     (if attempt \<ge> max_retries then (Inr None, tr)
      else (case get_latest_blockhash w tr of
              Inr (Some recent_blockhash) \<Rightarrow>
                (Inr (Some recent_blockhash), tr @ [EvGetLatestBlockhash])
            | _ \<Rightarrow>
                (if attempt + 1 < max_retries
                 then blockhash_loop w max_retries (attempt + 1)
                        (tr @ [EvGetLatestBlockhash, EvSleep 1])
                 else (Inl (Exn OtherException
                              (msg_no_blockhash @ str_nat max_retries @ msg_attempts)),
                       tr @ [EvGetLatestBlockhash]))))"
  by pat_completeness auto
termination
  by (relation "measure (\<lambda>(w, max_retries, attempt, tr). max_retries - attempt)") auto

declare blockhash_loop.simps [simp del]

definition get_blockhash_with_retry ::
  "world \<Rightarrow> event list \<Rightarrow> nat \<Rightarrow> (exn + pystr option) \<times> event list" where
  "get_blockhash_with_retry w tr max_retries = blockhash_loop w max_retries 0 tr"




section \<open>jupiter_service.py: the swap cycle\<close>

text \<open>The query of \<open>_get_quote\<close>.\<close>

definition quote_params :: "pystr \<Rightarrow> pystr \<Rightarrow> pystr \<Rightarrow> int \<Rightarrow> (pystr \<times> pystr) list" where
  "quote_params input_mint output_mint amount bps =
     [(asc ''inputMint'', input_mint),
      (asc ''outputMint'', output_mint),
      (asc ''amount'', amount),
      (asc ''slippageBps'', str_int bps),
      (asc ''onlyDirectRoutes'', asc ''true''),
      (asc ''platformFeeBps'', str_int JUPITER_PLATFORM_FEE_BPS),
      (asc ''platformFeeAccount'', JUPITER_PLATFORM_FEE_ACCOUNT)]"

definition quote_of_response :: "world \<Rightarrow> exn + http_resp \<Rightarrow> exn + json" where
  "quote_of_response w r =
     (case r of
        Inl e \<Rightarrow> Inl e
      | Inr quote_response \<Rightarrow>
          (if status quote_response \<noteq> 200
           then (case body quote_response of
                   Inl e \<Rightarrow> Inl e
                 | Inr error_data \<Rightarrow>
                     (case dict_get error_data (asc ''error'') (JStr (asc ''Unknown error'')) of
                        Inl e \<Rightarrow> Inl e
                      | Inr error_msg \<Rightarrow>
                          Inl (Exn OtherException
                                 (asc ''Jupiter Quote API error: '' @ py_str w error_msg))))
           else (case body quote_response of
                   Inl e \<Rightarrow> Inl e
                 | Inr quote_data \<Rightarrow>
                     (case key_in (asc ''error'') quote_data of
                        Inl e \<Rightarrow> Inl e
                      | Inr True \<Rightarrow>
                          (case subscript quote_data (asc ''error'') of
                             Inl e \<Rightarrow> Inl e
                           | Inr error_msg \<Rightarrow>
                               Inl (Exn OtherException
                                      (asc ''Jupiter Quote API error: '' @ py_str w error_msg)))
                      | Inr False \<Rightarrow>
                          (case key_in (asc ''platformFee'') quote_data of
                             Inl e \<Rightarrow> Inl e
                           | Inr False \<Rightarrow> Inr quote_data
                           | Inr True \<Rightarrow>
                               (case subscript quote_data (asc ''platformFee'') of
                                  Inl e \<Rightarrow> Inl e
                                | Inr fee \<Rightarrow>
                                    (case subscript fee (asc ''amount'') of
                                       Inl e \<Rightarrow> Inl e
                                     | Inr fee_amount \<Rightarrow> Inr quote_data)))))))"

text \<open>
  \<open>_get_quote\<close>: every exception is caught and gives \<open>None\<close>, which is \<open>JNull\<close> here (a
  JSON \<open>null\<close> is Python's \<open>None\<close>).
\<close>

definition get_quote ::
  "world \<Rightarrow> event list \<Rightarrow> pystr \<Rightarrow> pystr \<Rightarrow> pystr \<Rightarrow> num \<Rightarrow> json \<times> event list" where
  "get_quote w tr input_mint output_mint amount slippage =
     (case py_int (num_scale slippage 100) of
        Inl e \<Rightarrow> (JNull, tr)
      | Inr bps \<Rightarrow>
          ((case quote_of_response w
                  (http_get w tr (quote_api_url w)
                     (quote_params input_mint output_mint amount bps)) of
              Inl e \<Rightarrow> JNull
            | Inr quote_data \<Rightarrow> quote_data),
           tr @ [EvHttpGet (quote_api_url w) (quote_params input_mint output_mint amount bps)]))"

text \<open>The body of the request of \<open>_get_swap_transaction\<close>.\<close>

definition swap_request :: "pystr \<Rightarrow> json \<Rightarrow> json" where
  "swap_request user_wallet_address quote_data =
     JObj [(asc ''userPublicKey'', JStr user_wallet_address),
           (asc ''wrapUnwrapSOL'', JBool True),
           (asc ''quoteResponse'', quote_data),
           (asc ''asLegacyTransaction'', JBool True),
           (asc ''platformFeeBps'', JInt JUPITER_PLATFORM_FEE_BPS),
           (asc ''platformFeeAccount'', JStr JUPITER_PLATFORM_FEE_ACCOUNT)]"

text \<open>\<open>len(x)\<close>.\<close>

fun py_len :: "json \<Rightarrow> exn + nat" where
  "py_len (JStr s) = Inr (length s)"
| "py_len (JArr xs) = Inr (length xs)"
| "py_len (JObj kvs) = Inr (length kvs)"
| "py_len j = Inl (Exn TypeError (asc ''object of type '' @ type_name j @ asc '' has no len()''))"

text \<open>Message: "Unexpected answer from the API: ".\<close>

definition msg_unexpected_answer :: pystr where
  "msg_unexpected_answer = [1053, 1077, 1086, 1078, 1080, 1076, 1072, 1085, 1085, 1099, 1081,
     32, 1086, 1090, 1074, 1077, 1090, 32, 1086, 1090, 32, 65, 80, 73, 58, 32]"

text \<open>The error text of \<open>_get_swap_transaction\<close> for a status other than 200.\<close>

definition swap_error_msg :: "world \<Rightarrow> exn + json \<Rightarrow> pystr" where
  "swap_error_msg w b =
     (case b of
        Inl json_err \<Rightarrow> msg_unexpected_answer @ exn_msg json_err
      | Inr error_data \<Rightarrow>
          (case dict_get error_data (asc ''error'') (JStr (asc ''Unknown error'')) of
             Inl json_err \<Rightarrow> msg_unexpected_answer @ exn_msg json_err
           | Inr error_msg \<Rightarrow> py_str w error_msg))"

definition swap_tx_of_response :: "world \<Rightarrow> exn + http_resp \<Rightarrow> exn + json" where
  "swap_tx_of_response w r =
     (case r of
        Inl e \<Rightarrow> Inl e
      | Inr resp \<Rightarrow>
          (if status resp \<noteq> 200
           then Inl (Exn OtherException
                       (asc ''Jupiter Swap API error: '' @ swap_error_msg w (body resp)))
           else (case body resp of
                   Inl e \<Rightarrow> Inl e
                 | Inr swap_data \<Rightarrow>
                     (case key_in (asc ''error'') swap_data of
                        Inl e \<Rightarrow> Inl e
                      | Inr True \<Rightarrow>
                          (case subscript swap_data (asc ''error'') of
                             Inl e \<Rightarrow> Inl e
                           | Inr error_msg \<Rightarrow>
                               Inl (Exn OtherException
                                      (asc ''Jupiter Swap API error: '' @ py_str w error_msg)))
                      | Inr False \<Rightarrow>
                          (case dict_get swap_data (asc ''swapTransaction'') JNull of
                             Inl e \<Rightarrow> Inl e
                           | Inr tx_b64 \<Rightarrow>
                               (if \<not> py_truthy tx_b64 then Inr JNull
                                else (case py_len tx_b64 of
                                        Inl e \<Rightarrow> Inl e
                                      | Inr n \<Rightarrow> (if n < 100 then Inr JNull else Inr tx_b64))))))))"

text \<open>\<open>_get_swap_transaction\<close>: the transaction built by the aggregator, or \<open>None\<close>.\<close>

definition get_swap_transaction ::
  "world \<Rightarrow> event list \<Rightarrow> pystr \<Rightarrow> json \<Rightarrow> json \<times> event list" where
  "get_swap_transaction w tr user_wallet_address quote_data =
     ((case swap_tx_of_response w
             (http_post w tr (swap_api_url w) (swap_request user_wallet_address quote_data)) of
         Inl e \<Rightarrow> JNull
       | Inr tx_b64 \<Rightarrow> tx_b64),
      tr @ [EvHttpPost (swap_api_url w) (swap_request user_wallet_address quote_data)])"

text \<open>
  \<open>_send_swap_transaction\<close>: decode, decrypt the key (or take it as it is), sign, submit.
  After a submission the function sleeps two seconds and asks for the status of the
  signature; whatever that answers or raises (also an error of the transaction on
  chain) is logged only, and the signature is returned. Every other exception gives
  \<open>None\<close>.
\<close>

definition send_swap_transaction ::
  "world \<Rightarrow> event list \<Rightarrow> json \<Rightarrow> pystr \<Rightarrow> pystr option \<times> event list" where
  "send_swap_transaction w tr swap_transaction user_private_key =
     (case swap_transaction of
        JStr tx_b64 \<Rightarrow>
          (case decode_transaction w tx_b64 of
             Inl e \<Rightarrow> (None, tr)
           | Inr tx \<Rightarrow>
               (case keypair_from_b58 w
                       (case decrypt_private_key (crypto_of w) user_private_key of
                          Inl decrypt_err \<Rightarrow> user_private_key
                        | Inr decrypted_key \<Rightarrow> decrypted_key) of
                  Inl e \<Rightarrow> (None, tr)
                | Inr wallet \<Rightarrow>
                    (case sign_serialize w tx wallet of
                       Inl e \<Rightarrow> (None, tr)
                     | Inr raw \<Rightarrow>
                         (case send_raw_transaction w tr raw of
                            Inl e \<Rightarrow> (None, tr @ [EvSendRaw raw])
                          | Inr signature \<Rightarrow>
                              (Some signature,
                               tr @ [EvSendRaw raw, EvSleep 2, EvSigStatus signature])))))
      | _ \<Rightarrow> (None, tr))"

text \<open>"Could not get a quote from the Jupiter API"\<close>

definition msg_no_quote :: pystr where
  "msg_no_quote =
     [1053, 1077, 32, 1091, 1076, 1072, 1083, 1086, 1089, 1100, 32, 1087, 1086, 1083, 1091, 1095,
     1080, 1090, 1100, 32, 113, 117, 111, 116, 101, 32, 1086, 1090, 32, 74, 117, 112, 105, 116,
     101, 114, 32, 65, 80, 73]"

text \<open>"Could not get the swap transaction from the Jupiter API"\<close>

definition msg_no_swap_tx :: pystr where
  "msg_no_swap_tx =
     [1053, 1077, 32, 1091, 1076, 1072, 1083, 1086, 1089, 1100, 32, 1087, 1086, 1083, 1091, 1095,
     1080, 1090, 1100, 32, 1090, 1088, 1072, 1085, 1079, 1072, 1082, 1094, 1080, 1102, 32, 1089,
     1074, 1086, 1087, 1072, 32, 1086, 1090, 32, 74, 117, 112, 105, 116, 101, 114, 32, 65, 80,
     73]"

text \<open>"Could not send the swap transaction"\<close>

definition msg_swap_not_sent :: pystr where
  "msg_swap_not_sent =
     [1053, 1077, 32, 1091, 1076, 1072, 1083, 1086, 1089, 1100, 32, 1086, 1090, 1087, 1088, 1072,
     1074, 1080, 1090, 1100, 32, 1090, 1088, 1072, 1085, 1079, 1072, 1082, 1094, 1080, 1102, 32,
     1089, 1074, 1086, 1087, 1072]"

text \<open>
  One pass of the loop of \<open>perform_swap\<close>: quote, build, submit. \<open>Inl\<close> carries the message
  of the step that failed, \<open>Inr\<close> the signature.
\<close>

definition swap_attempt ::
  "world \<Rightarrow> event list \<Rightarrow> pystr \<Rightarrow> pystr \<Rightarrow> pystr \<Rightarrow> pystr \<Rightarrow> pystr \<Rightarrow> num
     \<Rightarrow> (pystr + pystr) \<times> event list" where
  "swap_attempt w tr input_mint output_mint amount user_wallet_address user_private_key slippage =
     (case get_quote w tr input_mint output_mint amount slippage of
        (quote_data, tr1) \<Rightarrow>
          (if \<not> py_truthy quote_data then (Inl msg_no_quote, tr1)
           else (case get_swap_transaction w tr1 user_wallet_address quote_data of
                   (swap_transaction, tr2) \<Rightarrow>
                     (if \<not> py_truthy swap_transaction then (Inl msg_no_swap_tx, tr2)
                      else (case send_swap_transaction w tr2 swap_transaction user_private_key of
                              (None, tr3) \<Rightarrow> (Inl msg_swap_not_sent, tr3)
                            | (Some signature, tr3) \<Rightarrow>
                                (if signature = [] then (Inl msg_swap_not_sent, tr3)
                                 else (Inr signature, tr3)))))))"

text \<open>
  The loop \<open>for attempt in range(max_retries)\<close> of \<open>perform_swap\<close>, from \<open>attempt\<close> on.
  A failed step sleeps one second and continues while \<open>attempt < max_retries - 1\<close>; on the
  last pass it raises \<open>Exception(message)\<close>, which the handler of the loop body raises
  again. The three steps themselves never raise. \<open>Inr None\<close> is the \<open>None\<close> returned when
  the loop ends without a \<open>return\<close>.
\<close>

function perform_swap_loop ::
  "world \<Rightarrow> pystr \<Rightarrow> pystr \<Rightarrow> pystr \<Rightarrow> pystr \<Rightarrow> pystr \<Rightarrow> num \<Rightarrow> nat \<Rightarrow> nat \<Rightarrow> event list
     \<Rightarrow> (exn + pystr option) \<times> event list" where
  "perform_swap_loop w input_mint output_mint amount user_wallet_address user_private_key
       slippage max_retries attempt tr =
     (if attempt \<ge> max_retries then (Inr None, tr)
      else (case swap_attempt w tr input_mint output_mint amount user_wallet_address
                   user_private_key slippage of
              (Inr signature, tr') \<Rightarrow> (Inr (Some signature), tr')
            | (Inl message, tr') \<Rightarrow>
                (if attempt + 1 < max_retries
                 then perform_swap_loop w input_mint output_mint amount user_wallet_address
                        user_private_key slippage max_retries (attempt + 1) (tr' @ [EvSleep 1])
                 else (Inl (Exn OtherException message), tr'))))"
  by pat_completeness auto
termination
  by (relation "measure (\<lambda>(w, im, om, a, wa, k, s, max_retries, attempt, tr).
        max_retries - attempt)") auto

declare perform_swap_loop.simps [simp del]

text \<open>
  \<open>perform_swap(token_out_address, amount, user_wallet_address, user_private_key,
  slippage, max_retries, is_selling)\<close>. The arguments are strings already.
\<close>

definition perform_swap ::
  "world \<Rightarrow> event list \<Rightarrow> pystr \<Rightarrow> pystr \<Rightarrow> pystr \<Rightarrow> pystr \<Rightarrow> num \<Rightarrow> nat \<Rightarrow> bool
     \<Rightarrow> (exn + pystr option) \<times> event list" where
  "perform_swap w tr token_out_address amount user_wallet_address user_private_key
       slippage max_retries is_selling =
     perform_swap_loop w
       (if is_selling then token_out_address else SOL_MINT)
       (if is_selling then SOL_MINT else token_out_address)
       amount user_wallet_address user_private_key
       (if \<not> is_selling \<and> token_out_address = BONK_MINT then Fin 10 else slippage)
       max_retries 0 tr"

section \<open>jupiter_service.py: execute_swap\<close>

text \<open>The explorer link of a signature.\<close>

definition solscan_url :: "pystr \<Rightarrow> pystr" where
  "solscan_url tx_signature = asc ''https://solscan.io/tx/'' @ tx_signature"

text \<open>
  The signature text \<open>execute_swap\<close> puts into the link: the signature itself, or, when
  it reads \<open>...Signature(x)...\<close>, the text \<open>x\<close>; \<open>str(None)\<close> for \<open>None\<close>.
\<close>

definition tx_signature_of :: "pystr option \<Rightarrow> exn + pystr" where
  "tx_signature_of signature =
     (case signature of
        None \<Rightarrow> Inr (asc ''None'')
      | Some s \<Rightarrow>
          (if substr_in (asc ''Signature('') s
           then (case split_1 (asc ''Signature('') s of
                   Inl e \<Rightarrow> Inl e
                 | Inr rest \<Rightarrow> Inr (split_0 (asc '')'') rest))
           else Inr s))"

text \<open>"Wrong format of the route: required parameters are missing"\<close>

definition msg_bad_route :: pystr where
  "msg_bad_route =
     [10060, 32, 1053, 1077, 1074, 1077, 1088, 1085, 1099, 1081, 32, 1092, 1086, 1088, 1084,
     1072, 1090, 32, 114, 111, 117, 116, 101, 58, 32, 1086, 1090, 1089, 1091, 1090, 1089, 1090,
     1074, 1091, 1102, 1090, 32, 1085, 1077, 1086, 1073, 1093, 1086, 1076, 1080, 1084, 1099,
     1077, 32, 1087, 1072, 1088, 1072, 1084, 1077, 1090, 1088, 1099]"

text \<open>"Transaction error: not enough liquidity or the amount is too small"\<close>

definition msg_swap_liquidity :: pystr where
  "msg_swap_liquidity =
     [10060, 32, 1054, 1096, 1080, 1073, 1082, 1072, 32, 1090, 1088, 1072, 1085, 1079, 1072,
     1082, 1094, 1080, 1080, 58, 32, 1053, 1077, 1076, 1086, 1089, 1090, 1072, 1090, 1086, 1095,
     1085, 1072, 1103, 32, 1083, 1080, 1082, 1074, 1080, 1076, 1085, 1086, 1089, 1090, 1100, 32,
     1080, 1083, 1080, 32, 1089, 1083, 1080, 1096, 1082, 1086, 1084, 32, 1084, 1072, 1083, 1077,
     1085, 1100, 1082, 1072, 1103, 32, 1089, 1091, 1084, 1084, 1072, 32, 1086, 1073, 1084, 1077,
     1085, 1072]"

text \<open>"Transaction error: slippage too high"\<close>

definition msg_swap_slippage :: pystr where
  "msg_swap_slippage =
     [10060, 32, 1054, 1096, 1080, 1073, 1082, 1072, 32, 1090, 1088, 1072, 1085, 1079, 1072,
     1082, 1094, 1080, 1080, 58, 32, 1057, 1083, 1080, 1096, 1082, 1086, 1084, 32, 1074, 1099,
     1089, 1086, 1082, 1086, 1077, 32, 1087, 1088, 1086, 1089, 1082, 1072, 1083, 1100, 1079,
     1099, 1074, 1072, 1085, 1080, 1077]"

text \<open>"Transaction error: not enough funds for the swap"\<close>

definition msg_swap_funds :: pystr where
  "msg_swap_funds =
     [10060, 32, 1054, 1096, 1080, 1073, 1082, 1072, 32, 1090, 1088, 1072, 1085, 1079, 1072,
     1082, 1094, 1080, 1080, 58, 32, 1053, 1077, 1076, 1086, 1089, 1090, 1072, 1090, 1086, 1095,
     1085, 1086, 32, 1089, 1088, 1077, 1076, 1089, 1090, 1074, 32, 1076, 1083, 1103, 32, 1074,
     1099, 1087, 1086, 1083, 1085, 1077, 1085, 1080, 1103, 32, 1086, 1073, 1084, 1077, 1085,
     1072]"

text \<open>"Error: "\<close>

definition cross_error :: pystr where
  "cross_error =
     [10060, 32, 1054, 1096, 1080, 1073, 1082, 1072, 58, 32]"

text \<open>The body of the \<open>try\<close> of \<open>execute_swap\<close>. After the link is formed the function sleeps
  two seconds and asks for the status of the signature; the answer is logged only.\<close>

definition execute_swap_body ::
  "world \<Rightarrow> event list \<Rightarrow> pystr \<Rightarrow> pystr \<Rightarrow> json \<Rightarrow> (exn + pystr) \<times> event list" where
  "execute_swap_body w tr user_pubkey user_privkey route =
     (case dict_get route (asc ''outputMint'') JNull of
        Inl e \<Rightarrow> (Inl e, tr)
      | Inr output_mint \<Rightarrow>
          (case dict_get route (asc ''inAmount'') JNull of
             Inl e \<Rightarrow> (Inl e, tr)
           | Inr amount \<Rightarrow>
               (if \<not> (py_truthy output_mint \<and> py_truthy amount)
                then (Inl (Exn ValueError msg_bad_route), tr)
                else (case perform_swap w tr (py_str w output_mint) (py_str w amount)
                             user_pubkey user_privkey
                             (if output_mint = JStr BONK_MINT then Fin 10 else Fin 1) 2 False of
                        (Inl e, tr1) \<Rightarrow> (Inl e, tr1)
                      | (Inr signature, tr1) \<Rightarrow>
                          (case tx_signature_of signature of
                             Inl e \<Rightarrow> (Inl e, tr1)
                           | Inr tx_signature \<Rightarrow>
                               (Inr (solscan_url tx_signature),
                                tr1 @ [EvSleep 2, EvSigStatus tx_signature]))))))"

text \<open>The handler of \<open>execute_swap\<close>: the message for \<open>str(e)\<close>.\<close>

definition swap_error_message :: "pystr \<Rightarrow> pystr" where
  "swap_error_message error_message =
     (if substr_in (asc ''Custom: 1'') error_message then msg_swap_liquidity
      else if substr_in (asc ''Custom: 6000'') error_message then msg_swap_slippage
      else if substr_in (asc ''0x1771'') error_message then msg_swap_funds
      else cross_error @ error_message)"

definition execute_swap ::
  "world \<Rightarrow> event list \<Rightarrow> pystr \<Rightarrow> pystr \<Rightarrow> json \<Rightarrow> pystr \<times> event list" where
  "execute_swap w tr user_pubkey user_privkey route =
     (case execute_swap_body w tr user_pubkey user_privkey route of
        (Inr solscan, tr') \<Rightarrow> (solscan, tr')
      | (Inl e, tr') \<Rightarrow> (swap_error_message (exn_msg e), tr'))"

section \<open>jupiter_service.py: execute_sell\<close>

text \<open>"Wallet address too short: "\<close>

definition msg_short_wallet :: pystr where
  "msg_short_wallet =
     [1057, 1083, 1080, 1096, 1082, 1086, 1084, 32, 1082, 1086, 1088, 1086, 1090, 1082, 1080,
     1081, 32, 1072, 1076, 1088, 1077, 1089, 32, 1082, 1086, 1096, 1077, 1083, 1100, 1082, 1072,
     58, 32]"

text \<open>"Wrong length of the decoded wallet address: "\<close>

definition msg_wallet_length :: pystr where
  "msg_wallet_length =
     [1053, 1077, 1074, 1077, 1088, 1085, 1072, 1103, 32, 1076, 1083, 1080, 1085, 1072, 32, 1076,
     1077, 1082, 1086, 1076, 1080, 1088, 1086, 1074, 1072, 1085, 1085, 1086, 1075, 1086, 32,
     1072, 1076, 1088, 1077, 1089, 1072, 32, 1082, 1086, 1096, 1077, 1083, 1100, 1082, 1072, 58,
     32]"

text \<open>" bytes (must be 32)"\<close>

definition msg_wallet_length_end :: pystr where
  "msg_wallet_length_end =
     [32, 1073, 1072, 1081, 1090, 32, 40, 1076, 1086, 1083, 1078, 1085, 1086, 32, 1073, 1099,
     1090, 1100, 32, 51, 50, 41]"

text \<open>"Wallet address is not base58: "\<close>

definition msg_wallet_base58 :: pystr where
  "msg_wallet_base58 =
     [1040, 1076, 1088, 1077, 1089, 32, 1082, 1086, 1096, 1077, 1083, 1100, 1082, 1072, 32, 1085,
     1077, 32, 1074, 32, 1092, 1086, 1088, 1084, 1072, 1090, 1077, 32, 98, 97, 115, 101, 53, 56,
     58, 32]"

text \<open>"Invalid wallet address: "\<close>

definition msg_invalid_wallet :: pystr where
  "msg_invalid_wallet =
     [1053, 1077, 1074, 1072, 1083, 1080, 1076, 1085, 1099, 1081, 32, 1072, 1076, 1088, 1077,
     1089, 32, 1082, 1086, 1096, 1077, 1083, 1100, 1082, 1072, 58, 32]"

text \<open>"Invalid token address "\<close>

definition msg_invalid_token :: pystr where
  "msg_invalid_token =
     [1053, 1077, 1074, 1072, 1083, 1080, 1076, 1085, 1099, 1081, 32, 1072, 1076, 1088, 1077,
     1089, 32, 1090, 1086, 1082, 1077, 1085, 1072, 32]"

text \<open>
  The checks of \<open>execute_sell\<close> on the wallet and the token: \<open>Inl\<close> the message returned,
  \<open>Inr\<close> the stripped wallet address, \<open>str\<close> of its key, the token address (after the
  symbol table) and \<open>str\<close> of its key.
\<close>

definition sell_checks ::
  "world \<Rightarrow> pystr \<Rightarrow> pystr \<Rightarrow> pystr + (pystr \<times> pystr \<times> pystr \<times> pystr)" where
  "sell_checks w user_pubkey0 original_input =
     (let user_pubkey = py_strip w user_pubkey0 in
      if length user_pubkey < 32 then Inl (cross_error @ msg_short_wallet @ user_pubkey)
      else (case b58decode w user_pubkey of
              Inl e \<Rightarrow> Inl (cross_error @ msg_wallet_base58 @ exn_msg e)
            | Inr decoded \<Rightarrow>
                (if length decoded \<noteq> 32
                 then Inl (cross_error @ msg_wallet_length @ str_nat (length decoded)
                           @ msg_wallet_length_end)
                 else (case PublicKey w user_pubkey of
                         Inl e \<Rightarrow> Inl (cross_error @ msg_invalid_wallet @ exn_msg e)
                       | Inr wallet_pubkey \<Rightarrow>
                           (let token_address =
                                  (case SOLANA_TOKEN_ADDRESSES w (py_upper w original_input) of
                                     Some address \<Rightarrow> address
                                   | None \<Rightarrow> original_input)
                            in (case PublicKey w token_address of
                                  Inl e \<Rightarrow>
                                    Inl (cross_error @ msg_invalid_token @ original_input
                                         @ asc '': '' @ exn_msg e)
                                | Inr token_pubkey \<Rightarrow>
                                    Inr (user_pubkey, wallet_pubkey, token_address,
                                         token_pubkey)))))))"

text \<open>The amount argument of \<open>execute_sell\<close>: an int, a string, a float, or a value of
  another type (with the text of its type).\<close>

datatype sell_amount = AmtInt int | AmtStr pystr | AmtFloat num | AmtOther pystr

text \<open>"Wrong type of amount: "\<close>

definition msg_amount_type :: pystr where
  "msg_amount_type =
     [1053, 1077, 1074, 1077, 1088, 1085, 1099, 1081, 32, 1090, 1080, 1087, 32, 97, 109, 111,
     117, 110, 116, 58, 32]"

text \<open>"The amount is too large: "\<close>

definition msg_amount_too_big :: pystr where
  "msg_amount_too_big =
     [1057, 1091, 1084, 1084, 1072, 32, 1089, 1083, 1080, 1096, 1082, 1086, 1084, 32, 1073, 1086,
     1083, 1100, 1096, 1072, 1103, 58, 32]"

text \<open>"Wrong format of the amount: "\<close>

definition msg_amount_format :: pystr where
  "msg_amount_format =
     [1053, 1077, 1074, 1077, 1088, 1085, 1099, 1081, 32, 1092, 1086, 1088, 1084, 1072, 1090, 32,
     1089, 1091, 1084, 1084, 1099, 58, 32]"

text \<open>"Could not get the balance of token "\<close>

definition msg_no_balance :: pystr where
  "msg_no_balance =
     [1053, 1077, 32, 1091, 1076, 1072, 1083, 1086, 1089, 1100, 32, 1087, 1086, 1083, 1091, 1095,
     1080, 1090, 1100, 32, 1073, 1072, 1083, 1072, 1085, 1089, 32, 1090, 1086, 1082, 1077, 1085,
     1072, 32]"

text \<open>"Not enough tokens. Balance: "\<close>

definition msg_insufficient :: pystr where
  "msg_insufficient =
     [1053, 1077, 1076, 1086, 1089, 1090, 1072, 1090, 1086, 1095, 1085, 1086, 32, 1090, 1086,
     1082, 1077, 1085, 1086, 1074, 46, 32, 1041, 1072, 1083, 1072, 1085, 1089, 58, 32]"

text \<open>", requested: "\<close>

definition msg_requested :: pystr where
  "msg_requested =
     [44, 32, 1047, 1072, 1087, 1088, 1086, 1096, 1077, 1085, 1086, 58, 32]"

text \<open>The conversion of the amount to smallest units, with the bound \<open>10 ** 18\<close>.\<close>

definition sell_raw_amount :: "world \<Rightarrow> sell_amount \<Rightarrow> nat \<Rightarrow> exn + int" where
  "sell_raw_amount w amount token_decimals =
     (case (case amount of
              AmtInt i \<Rightarrow> Inr i
            | AmtStr s \<Rightarrow>
                (case py_float w s of
                   Inl e \<Rightarrow> Inl e
                 | Inr amount_float \<Rightarrow> py_int (num_scale amount_float (10 ^ token_decimals)))
            | AmtFloat x \<Rightarrow> py_int (num_scale x (10 ^ token_decimals))
            | AmtOther t \<Rightarrow> Inl (Exn ValueError (msg_amount_type @ t))) of
        Inl e \<Rightarrow> Inl e
      | Inr raw_amount \<Rightarrow>
          (if raw_amount > 10 ^ 18
           then Inl (Exn ValueError (msg_amount_too_big @ str_int raw_amount))
           else Inr raw_amount))"

text \<open>
  The buffer \<open>int(0.01 * (10 ** token_decimals))\<close>, a hundredth of a token (in binary
  floating point the product rounds to the same integer for every number of decimals
  up to 24), and the amount that goes to the quoter: when selling \<open>raw_amount\<close> would
  leave less than the buffer, \<open>balance - buffer\<close>.
\<close>

definition min_balance :: "nat \<Rightarrow> int" where
  "min_balance token_decimals = trunc (1 / 100 * of_nat (10 ^ token_decimals))"

definition capped_amount :: "int \<Rightarrow> nat \<Rightarrow> int \<Rightarrow> int" where
  "capped_amount token_balance_raw token_decimals raw_amount =
     (if token_balance_raw - raw_amount < min_balance token_decimals
      then token_balance_raw - min_balance token_decimals
      else raw_amount)"

definition sell_slippage :: "pystr \<Rightarrow> num" where
  "sell_slippage token_address =
     (if token_address \<notin> set [USDC_MINT, USDT_MINT] then Fin 3 else Fin 1)"

text \<open>"Could not find a route to sell token "\<close>

definition msg_no_route :: pystr where
  "msg_no_route =
     [1053, 1077, 32, 1091, 1076, 1072, 1083, 1086, 1089, 1100, 32, 1085, 1072, 1081, 1090, 1080,
     32, 1084, 1072, 1088, 1096, 1088, 1091, 1090, 32, 1076, 1083, 1103, 32, 1087, 1088, 1086,
     1076, 1072, 1078, 1080, 32, 1090, 1086, 1082, 1077, 1085, 1072, 32]"

text \<open>"Could not get the signature of the transaction"\<close>

definition msg_no_signature :: pystr where
  "msg_no_signature =
     [1053, 1077, 32, 1091, 1076, 1072, 1083, 1086, 1089, 1100, 32, 1087, 1086, 1083, 1091, 1095,
     1080, 1090, 1100, 32, 115, 105, 103, 110, 97, 116, 117, 114, 101, 32, 1090, 1088, 1072,
     1085, 1079, 1072, 1082, 1094, 1080, 1080]"

text \<open>"Not enough funds for the operation"\<close>

definition msg_sell_funds :: pystr where
  "msg_sell_funds =
     [1053, 1077, 1076, 1086, 1089, 1090, 1072, 1090, 1086, 1095, 1085, 1086, 32, 1089, 1088,
     1077, 1076, 1089, 1090, 1074, 32, 1076, 1083, 1103, 32, 1074, 1099, 1087, 1086, 1083, 1085,
     1077, 1085, 1080, 1103, 32, 1086, 1087, 1077, 1088, 1072, 1094, 1080, 1080]"

text \<open>"Wrong token address"\<close>

definition msg_sell_token :: pystr where
  "msg_sell_token =
     [1053, 1077, 1074, 1077, 1088, 1085, 1099, 1081, 32, 1072, 1076, 1088, 1077, 1089, 32, 1090,
     1086, 1082, 1077, 1085, 1072]"

text \<open>"Slippage threshold exceeded. Try again"\<close>

definition msg_sell_slippage :: pystr where
  "msg_sell_slippage =
     [1055, 1088, 1077, 1074, 1099, 1096, 1077, 1085, 32, 1087, 1086, 1088, 1086, 1075, 32, 1087,
     1088, 1086, 1089, 1082, 1072, 1083, 1100, 1079, 1099, 1074, 1072, 1085, 1080, 1103, 46, 32,
     1055, 1086, 1087, 1088, 1086, 1073, 1091, 1081, 1090, 1077, 32, 1077, 1097, 1077, 32, 1088,
     1072, 1079]"

text \<open>"Not enough liquidity to sell. Try a smaller amount"\<close>

definition msg_sell_liquidity :: pystr where
  "msg_sell_liquidity =
     [1053, 1077, 1076, 1086, 1089, 1090, 1072, 1090, 1086, 1095, 1085, 1072, 1103, 32, 1083,
     1080, 1082, 1074, 1080, 1076, 1085, 1086, 1089, 1090, 1100, 32, 1076, 1083, 1103, 32, 1087,
     1088, 1086, 1076, 1072, 1078, 1080, 46, 32, 1055, 1086, 1087, 1088, 1086, 1073, 1091, 1081,
     1090, 1077, 32, 1091, 1084, 1077, 1085, 1100, 1096, 1080, 1090, 1100, 32, 1089, 1091, 1084,
     1084, 1091]"

text \<open>"Not enough liquidity in the pool to sell the token"\<close>

definition msg_sell_pool :: pystr where
  "msg_sell_pool =
     [1053, 1077, 1076, 1086, 1089, 1090, 1072, 1090, 1086, 1095, 1085, 1072, 1103, 32, 1083,
     1080, 1082, 1074, 1080, 1076, 1085, 1086, 1089, 1090, 1100, 32, 1074, 32, 1087, 1091, 1083,
     1077, 32, 1076, 1083, 1103, 32, 1087, 1088, 1086, 1076, 1072, 1078, 1080, 32, 1090, 1086,
     1082, 1077, 1085, 1072]"

text \<open>"Error while selling token "\<close>

definition msg_sell_error :: pystr where
  "msg_sell_error =
     [10060, 32, 1054, 1096, 1080, 1073, 1082, 1072, 32, 1087, 1088, 1080, 32, 1087, 1088, 1086,
     1076, 1072, 1078, 1077, 32, 1090, 1086, 1082, 1077, 1085, 1072, 32]"

text \<open>The handler of the inner \<open>try\<close> of \<open>execute_sell\<close>: the message for \<open>str(e)\<close>.\<close>

definition sell_error_message :: "world \<Rightarrow> pystr \<Rightarrow> pystr \<Rightarrow> pystr" where
  "sell_error_message w original_input error_msg =
     (if substr_in (asc ''insufficient funds'') (py_lower w error_msg)
         \<or> substr_in (asc ''not enough lamports'') (py_lower w error_msg)
      then cross_error @ msg_sell_funds
      else if substr_in (asc ''invalid token'') (py_lower w error_msg)
         \<or> substr_in (asc ''invalid mint'') (py_lower w error_msg)
      then cross_error @ msg_sell_token
      else if substr_in (asc ''slippage exceeded'') (py_lower w error_msg)
      then cross_error @ msg_sell_slippage
      else if substr_in (asc ''liquidity'') (py_lower w error_msg)
      then cross_error @ msg_sell_liquidity
      else if substr_in (asc ''Custom: 1'') error_msg
      then cross_error @ msg_sell_pool
      else msg_sell_error @ original_input @ asc '': '' @ error_msg)"

text \<open>
  The body of the inner \<open>try\<close>: the route for \<open>raw_amount\<close>, then the swap itself
  (\<open>perform_swap\<close> quotes again). \<open>Inr\<close> is the string returned, \<open>Inl\<close> the exception that
  reaches the inner handler.
\<close>

definition sell_swap_body ::
  "world \<Rightarrow> event list \<Rightarrow> pystr \<Rightarrow> pystr \<Rightarrow> pystr \<Rightarrow> pystr \<Rightarrow> int \<Rightarrow> num
     \<Rightarrow> (exn + pystr) \<times> event list" where
  "sell_swap_body w tr original_input token_address user_pubkey user_privkey raw_amount slippage =
     (case get_best_route w tr token_address SOL_MINT (str_int raw_amount) slippage of
        (Inl e, tr1) \<Rightarrow> (Inl e, tr1)
      | (Inr route, tr1) \<Rightarrow>
          (if \<not> py_truthy route then (Inr (cross_error @ msg_no_route @ original_input), tr1)
           else (case key_in (asc ''routePlan'') route of
                   Inl e \<Rightarrow> (Inl e, tr1)
                 | Inr False \<Rightarrow> (Inr (cross_error @ msg_no_route @ original_input), tr1)
                 | Inr True \<Rightarrow>
                     (case dict_get route (asc ''routePlan'') JNull of
                        Inl e \<Rightarrow> (Inl e, tr1)
                      | Inr route_plan \<Rightarrow>
                          (if \<not> py_truthy route_plan
                           then (Inr (cross_error @ msg_no_route @ original_input), tr1)
                           else (case perform_swap w tr1 token_address (str_int raw_amount)
                                        user_pubkey user_privkey slippage 2 True of
                                   (Inl e, tr2) \<Rightarrow> (Inl e, tr2)
                                 | (Inr None, tr2) \<Rightarrow> (Inr (cross_error @ msg_no_signature), tr2)
                                 | (Inr (Some signature), tr2) \<Rightarrow>
                                     (if signature = []
                                      then (Inr (cross_error @ msg_no_signature), tr2)
                                      else (Inr (solscan_url signature), tr2))))))))"

definition sell_swap ::
  "world \<Rightarrow> event list \<Rightarrow> pystr \<Rightarrow> pystr \<Rightarrow> pystr \<Rightarrow> pystr \<Rightarrow> int \<Rightarrow> num
     \<Rightarrow> pystr \<times> event list" where
  "sell_swap w tr original_input token_address user_pubkey user_privkey raw_amount slippage =
     (case sell_swap_body w tr original_input token_address user_pubkey user_privkey
             raw_amount slippage of
        (Inr result, tr') \<Rightarrow> (result, tr')
      | (Inl e, tr') \<Rightarrow> (sell_error_message w original_input (exn_msg e), tr'))"

text \<open>
  What \<open>execute_sell\<close> does once the balance and the decimals are known: the conversion of
  the amount, the balance guard, the buffer, and the swap. \<open>Inl\<close> is an exception that
  reaches the outer handler.
\<close>

definition sell_with_balance ::
  "world \<Rightarrow> event list \<Rightarrow> pystr \<Rightarrow> pystr \<Rightarrow> pystr \<Rightarrow> pystr \<Rightarrow> sell_amount \<Rightarrow> int \<Rightarrow> nat
     \<Rightarrow> (exn + pystr) \<times> event list" where
  "sell_with_balance w tr original_input token_address user_pubkey user_privkey amount
       token_balance_raw token_decimals =
     (if token_balance_raw = 0 then (Inr (cross_error @ msg_no_balance @ original_input), tr)
      else (case sell_raw_amount w amount token_decimals of
              Inl e \<Rightarrow>
                (if exn_kind_of e = ValueError \<or> exn_kind_of e = TypeError
                 then (Inr (cross_error @ msg_amount_format @ exn_msg e), tr)
                 else (Inl e, tr))
            | Inr raw_amount \<Rightarrow>
                (if raw_amount > token_balance_raw
                 then (Inr (cross_error @ msg_insufficient
                            @ format_6f w (of_int token_balance_raw / of_nat (10 ^ token_decimals))
                            @ msg_requested
                            @ format_6f w (of_int raw_amount / of_nat (10 ^ token_decimals))),
                       tr)
                 else (case sell_swap w tr original_input token_address user_pubkey user_privkey
                              (capped_amount token_balance_raw token_decimals raw_amount)
                              (sell_slippage token_address) of
                         (result, tr') \<Rightarrow> (Inr result, tr')))))"

text \<open>The body of the outer \<open>try\<close> of \<open>execute_sell\<close>.\<close>

definition execute_sell_body ::
  "world \<Rightarrow> event list \<Rightarrow> pystr \<Rightarrow> pystr \<Rightarrow> pystr \<Rightarrow> sell_amount
     \<Rightarrow> (exn + pystr) \<times> event list" where
  "execute_sell_body w tr user_pubkey0 user_privkey original_input amount =
     (case sell_checks w user_pubkey0 original_input of
        Inl message \<Rightarrow> (Inr message, tr)
      | Inr (user_pubkey, wallet_pubkey, token_address, token_pubkey) \<Rightarrow>
          (case get_token_balance w tr wallet_pubkey token_pubkey of
             Inl e \<Rightarrow> (Inl e, tr @ [EvTokenBalance wallet_pubkey token_pubkey])
           | Inr (token_balance_raw, token_decimals) \<Rightarrow>
               sell_with_balance w (tr @ [EvTokenBalance wallet_pubkey token_pubkey])
                 original_input token_address user_pubkey user_privkey amount
                 token_balance_raw token_decimals))"

text \<open>\<open>execute_sell(user_pubkey, user_privkey, token_address, amount)\<close>.\<close>

definition execute_sell ::
  "world \<Rightarrow> event list \<Rightarrow> pystr \<Rightarrow> pystr \<Rightarrow> pystr \<Rightarrow> sell_amount \<Rightarrow> pystr \<times> event list" where
  "execute_sell w tr user_pubkey user_privkey token_address amount =
     (case execute_sell_body w tr user_pubkey user_privkey token_address amount of
        (Inr result, tr') \<Rightarrow> (result, tr')
      | (Inl e, tr') \<Rightarrow> (cross_error @ exn_msg e, tr'))"

text \<open>The quote requests among the events, and the amount a request asks for.\<close>

fun is_quote_call :: "world \<Rightarrow> event \<Rightarrow> bool" where
  "is_quote_call w (EvHttpGet url params) = (url = quote_api_url w)"
| "is_quote_call w e = False"

fun quoted_amount :: "event \<Rightarrow> pystr option" where
  "quoted_amount (EvHttpGet url params) = map_of params (asc ''amount'')"
| "quoted_amount e = None"

text \<open>The calls \<open>perform_swap\<close> is counted by: requests to build a swap transaction,
  submissions, and anchor (blockhash) fetches.\<close>

fun is_build_call :: "world \<Rightarrow> event \<Rightarrow> bool" where
  "is_build_call w (EvHttpPost url payload) = (url = swap_api_url w)"
| "is_build_call w e = False"

fun is_submission :: "event \<Rightarrow> bool" where
  "is_submission (EvSendRaw raw) = True"
| "is_submission e = False"

fun is_anchor_fetch :: "event \<Rightarrow> bool" where
  "is_anchor_fetch EvGetLatestBlockhash = True"
| "is_anchor_fetch e = False"

section \<open>solana_client.py: submission\<close>

text \<open>Message of \<open>send_transaction_with_retry\<close>: "Could not send the transaction after ".\<close>

definition msg_send_failed :: pystr where
  "msg_send_failed = [10060, 32, 1053, 1077, 32, 1091, 1076, 1072, 1083, 1086, 1089, 1100, 32,
     1086, 1090, 1087, 1088, 1072, 1074, 1080, 1090, 1100, 32, 1090, 1088, 1072, 1085, 1079,
     1072, 1082, 1094, 1080, 1102, 32, 1087, 1086, 1089, 1083, 1077, 32]"

text \<open>
  \<open>send_transaction_with_retry(tx_bytes, max_retries)\<close>: the loop
  \<open>for attempt in range(max_retries)\<close>, from \<open>attempt\<close> on. In the handler the rate-limit
  branch (\<open>"429" in str(e)\<close>) sleeps \<open>2 * (attempt + 1)\<close> seconds and continues; it comes
  before the test \<open>attempt == max_retries - 1\<close> that raises. \<open>Inr None\<close> is the \<open>None\<close>
  returned when the loop ends without a \<open>return\<close>.
\<close>

function send_loop ::
  "world \<Rightarrow> nat list \<Rightarrow> nat \<Rightarrow> nat \<Rightarrow> event list \<Rightarrow> (exn + pystr option) \<times> event list" where
  "send_loop w tx_bytes max_retries attempt tr =
     (if attempt \<ge> max_retries then (Inr None, tr)
      else (case send_raw_transaction w tr tx_bytes of
              Inr tx_sig \<Rightarrow> (Inr (Some tx_sig), tr @ [EvSendRaw tx_bytes])
            | Inl e \<Rightarrow>
                (if substr_in (asc ''429'') (exn_msg e)
                 then send_loop w tx_bytes max_retries (attempt + 1)
                        (tr @ [EvSendRaw tx_bytes, EvSleep (2 * (attempt + 1))])
                 else if attempt + 1 = max_retries
                 then (Inl (Exn OtherException
                              (msg_send_failed @ str_nat max_retries @ msg_attempts)),
                       tr @ [EvSendRaw tx_bytes])
                 else send_loop w tx_bytes max_retries (attempt + 1)
                        (tr @ [EvSendRaw tx_bytes, EvSleep 1]))))"
  by pat_completeness auto
termination
  by (relation "measure (\<lambda>(w, tx_bytes, max_retries, attempt, tr). max_retries - attempt)") auto

declare send_loop.simps [simp del]

definition send_transaction_with_retry ::
  "world \<Rightarrow> event list \<Rightarrow> nat list \<Rightarrow> nat \<Rightarrow> (exn + pystr option) \<times> event list" where
  "send_transaction_with_retry w tr tx_bytes max_retries = send_loop w tx_bytes max_retries 0 tr"

section \<open>solana_service.py: send_spl_token\<close>






section \<open>Summaries of event lists\<close>

text \<open>
  What one pass of the loop of \<open>perform_swap\<close> may add to the events: no anchor fetch, at
  most one build request, no more submissions than build requests, no pause of one
  second, and quote requests for the amount \<open>a\<close> only.
\<close>

definition attempt_events :: "world \<Rightarrow> pystr \<Rightarrow> event list \<Rightarrow> bool" where
  "attempt_events w a evs \<longleftrightarrow>
     filter is_anchor_fetch evs = []
     \<and> length (filter is_submission evs) \<le> length (filter (is_build_call w) evs)
     \<and> length (filter (is_build_call w) evs) \<le> 1
     \<and> count_list evs (EvSleep 1) = 0
     \<and> (\<forall>e \<in> set evs. is_quote_call w e \<longrightarrow> quoted_amount e = Some a)"

text \<open>The same for a run of at most \<open>n\<close> passes, which are one second apart.\<close>

definition loop_events :: "world \<Rightarrow> pystr \<Rightarrow> nat \<Rightarrow> event list \<Rightarrow> bool" where
  "loop_events w a n evs \<longleftrightarrow>
     filter is_anchor_fetch evs = []
     \<and> length (filter is_submission evs) \<le> length (filter (is_build_call w) evs)
     \<and> length (filter (is_build_call w) evs) \<le> n
     \<and> count_list evs (EvSleep 1) < Suc n
     \<and> (\<forall>e \<in> set evs. is_quote_call w e \<longrightarrow> quoted_amount e = Some a)"

text \<open>
  The result of \<open>n\<close> passes that added the events \<open>evs\<close>: an exception only after all \<open>n\<close>
  passes, \<open>None\<close> only when there was no pass, and a signature only when it is not empty
  and the RPC node returned it to a submission.
\<close>

definition swap_outcome :: "world \<Rightarrow> exn + pystr option \<Rightarrow> nat \<Rightarrow> event list \<Rightarrow> bool" where
  "swap_outcome w r n evs \<longleftrightarrow>
     (case r of
        Inl e \<Rightarrow> e \<in> Exn OtherException ` {msg_no_quote, msg_no_swap_tx, msg_swap_not_sent}
                 \<and> Suc (count_list evs (EvSleep 1)) = n
      | Inr None \<Rightarrow> n = 0
      | Inr (Some sig) \<Rightarrow> sig \<noteq> [] \<and> (\<exists>tr1 raw. send_raw_transaction w tr1 raw = Inr sig))"

text \<open>
  What \<open>execute_sell\<close> may return: a message that starts with the cross mark, or the
  explorer link of a signature that the RPC node returned to a submission.
\<close>

definition sell_result_ok :: "world \<Rightarrow> pystr \<Rightarrow> bool" where
  "sell_result_ok w s \<longleftrightarrow>
     starts_with [10060] s
     \<or> (\<exists>tr1 raw sig. send_raw_transaction w tr1 raw = Inr sig \<and> s = solscan_url sig)"


section \<open>Scenarios\<close>

text \<open>Concrete environments, on which the theorems below are evaluated.\<close>

text \<open>A process without \<open>ENCRYPTION_KEY\<close>: every decryption fails.\<close>

definition crypto_nokey :: crypto where
  "crypto_nokey = \<lparr> ENCRYPTION_KEY = None, Fernet = (\<lambda>k. None),
       fernet_decrypt = (\<lambda>k s. Inr s) \<rparr>"


definition Decimal_minus_two :: "pystr \<Rightarrow> exn + num" where
  "Decimal_minus_two s = Inr (Fin (- 2))"

text \<open>The methods of \<open>str\<close> on ASCII text.\<close>

definition ascii_upper :: "pystr \<Rightarrow> pystr" where
  "ascii_upper s = map (\<lambda>c. if 97 \<le> c \<and> c \<le> 122 then c - 32 else c) s"

definition ascii_lower :: "pystr \<Rightarrow> pystr" where
  "ascii_lower s = map (\<lambda>c. if 65 \<le> c \<and> c \<le> 90 then c + 32 else c) s"

definition ascii_strip :: "pystr \<Rightarrow> pystr" where
  "ascii_strip s = rev (dropWhile (\<lambda>c. c = 32) (rev (dropWhile (\<lambda>c. c = 32) s)))"

text \<open>
  A world in which every remote party is unreachable, every key and address is
  accepted, and the symbol table is empty. The scenarios below change single parts.
\<close>

definition world0 :: world where
  "world0 = \<lparr> crypto_of = crypto_nokey,
      JUPITER_API_URL = asc ''https://jupiter.test/'',
      SOLANA_RPC_URL = asc ''https://rpc.test'',
      SOLANA_TOKEN_ADDRESSES = (\<lambda>s. None),
      py_strip = ascii_strip, py_upper = ascii_upper, py_lower = ascii_lower,
      py_repr = (\<lambda>j. type_name j),
      py_float = (\<lambda>s. Inl (Exn ValueError (asc ''could not convert string to float''))),
      format_6f = (\<lambda>r. str_int (trunc r)),
      b58decode = (\<lambda>s. Inr (replicate 32 0)),
      PublicKey = (\<lambda>s. Inr s),
      decode_transaction = (\<lambda>s. Inr [1]),
      keypair_from_b58 = (\<lambda>s. Inr [2]),
      sign_serialize = (\<lambda>t k. Inr (t @ k)),
      http_get = (\<lambda>tr url params. Inl (Exn OtherException (asc ''connection refused''))),
      http_post = (\<lambda>tr url payload. Inl (Exn OtherException (asc ''connection refused''))),
      send_raw_transaction = (\<lambda>tr b. Inl (Exn OtherException (asc ''connection refused''))),
      get_latest_blockhash = (\<lambda>tr. Inr (Some (asc ''blockhash''))),
      get_token_balance = (\<lambda>tr wallet token. Inr (0, 9)) \<rparr>"

text \<open>The RPC node answers every submission with a rate-limit error.\<close>

definition world_rate_limited :: world where
  "world_rate_limited = world0 \<lparr> send_raw_transaction :=
      (\<lambda>tr b. Inl (Exn OtherException (asc ''429 Too Many Requests''))) \<rparr>"



text \<open>The aggregator answers every quote request with the same route.\<close>

definition route0 :: json where
  "route0 = JObj [(asc ''inputMint'', JStr USDC_MINT),
                  (asc ''inAmount'', JStr (asc ''1000000'')),
                  (asc ''outputMint'', JStr SOL_MINT),
                  (asc ''outAmount'', JStr (asc ''5000000'')),
                  (asc ''routePlan'', JArr [JObj [(asc ''percent'', JInt 100)]])]"

definition world_quote :: world where
  "world_quote = world0 \<lparr> http_get :=
      (\<lambda>tr url params. Inr \<lparr> status = 200, body = Inr route0 \<rparr>) \<rparr>"

text \<open>A wallet address and a private key.\<close>

definition wallet0 :: pystr where
  "wallet0 = asc ''7xKXtg2CW87d97TXJSDpbD5jBkheTqA83TZRuJosgAsU''"

definition key0 :: pystr where
  "key0 = asc ''secretkey''"

text \<open>The aggregator quotes and builds a transaction, and the RPC node refuses every
  submission.\<close>

definition swap_built :: http_resp where
  "swap_built = \<lparr> status = 200,
       body = Inr (JObj [(asc ''swapTransaction'', JStr (replicate 120 65))]) \<rparr>"

definition world_submit_fails :: world where
  "world_submit_fails = world_quote \<lparr> http_post := (\<lambda>tr url payload. Inr swap_built) \<rparr>"


text \<open>The aggregator quotes and builds, the RPC node accepts the submission with the
  signature \<open>abc123\<close>, and the wallet holds 5 tokens of six decimals.\<close>

definition world_swap_ok :: world where
  "world_swap_ok = world_submit_fails
     \<lparr> send_raw_transaction := (\<lambda>tr raw. Inr (asc ''abc123'')),
       get_token_balance := (\<lambda>tr wallet token. Inr (5000000, 6)) \<rparr>"

text \<open>The events of a sale of \<open>raw_amount\<close> smallest units in that world.\<close>

definition sold_events :: "int \<Rightarrow> event list" where
  "sold_events raw_amount =
     [EvTokenBalance wallet0 USDC_MINT,
      EvHttpGet (quote_api_url world_swap_ok)
        (route_params USDC_MINT SOL_MINT (str_int raw_amount) 100),
      EvHttpGet (quote_api_url world_swap_ok)
        (quote_params USDC_MINT SOL_MINT (str_int raw_amount) 100),
      EvHttpPost (swap_api_url world_swap_ok) (swap_request wallet0 route0),
      EvSendRaw [1, 2], EvSleep 2, EvSigStatus (asc ''abc123'')]"



text \<open>A route for buying the token with one SOL.\<close>

definition route_buy :: json where
  "route_buy = JObj [(asc ''inputMint'', JStr SOL_MINT),
                     (asc ''inAmount'', JStr (asc ''1000000000'')),
                     (asc ''outputMint'', JStr USDC_MINT),
                     (asc ''outAmount'', JStr (asc ''5000000'')),
                     (asc ''priceImpactPct'', JStr (asc ''0.5''))]"

section \<open>Amount conversion\<close>



text \<open>
  C6. For every numeric amount that is at most zero (a finite number \<open>\<le> 0\<close>, or minus
  infinity) and any number of decimals, \<open>to_lamports\<close> returns 0 and does not raise.
\<close>

theorem to_lamports_nonpositive:
  "Decimal_of amount = Inr v \<Longrightarrow> v = NegInf \<or> (\<exists>r. v = Fin r \<and> r \<le> 0) \<Longrightarrow>
   to_lamports Decimal_of amount decimals = Inr 0"
  by (auto simp: to_lamports_def to_lamports_body_def)

theorem to_lamports_nonpositive_witness:
  "Decimal_minus_two [] = Inr (Fin (- 2)) \<and> (- 2 :: rat) \<le> 0
   \<and> to_lamports Decimal_minus_two [] 9 = Inr 0"
proof -
  have h: "Decimal_minus_two [] = Inr (Fin (- 2))" by (simp add: Decimal_minus_two_def)
  have c: "Fin (- 2) = NegInf \<or> (\<exists>r. Fin (- 2) = Fin r \<and> r \<le> 0)" by simp
  show ?thesis using to_lamports_nonpositive [of Decimal_minus_two "[]" "Fin (- 2)" 9, OF h c] h by simp
qed

section \<open>Key vault\<close>

text \<open>
  C10. When the decryption attempt of \<open>decrypt_private_key\<close> raises (the cipher cannot
  be built or the input cannot be decrypted), an input of 40 to 90 characters is
  returned unchanged, and for any other length the exception propagates.
\<close>

theorem decrypt_private_key_fallback:
  "decrypt_attempt c k = Inl e \<Longrightarrow>
   decrypt_private_key c k = (if 40 \<le> length k \<and> length k \<le> 90 then Inr k else Inl e)"
  by (simp add: decrypt_private_key_def)

text \<open>Without an encryption key, a 44-character input comes back as it is and a
  120-character input raises.\<close>

theorem decrypt_private_key_fallback_witness:
  "decrypt_attempt crypto_nokey (replicate 44 65) = Inl (Exn ValueError msg_no_encryption_key)
   \<and> decrypt_private_key crypto_nokey (replicate 44 65) = Inr (replicate 44 65)
   \<and> decrypt_attempt crypto_nokey (replicate 120 65) = Inl (Exn ValueError msg_no_encryption_key)
   \<and> decrypt_private_key crypto_nokey (replicate 120 65)
       = Inl (Exn ValueError msg_no_encryption_key)"
proof -
  have a: "decrypt_attempt crypto_nokey k = Inl (Exn ValueError msg_no_encryption_key)" for k
    by (simp add: decrypt_attempt_def get_encryption_cipher_def crypto_nokey_def)
  show ?thesis
    using decrypt_private_key_fallback [OF a [of "replicate 44 65"]]
          decrypt_private_key_fallback [OF a [of "replicate 120 65"]] a
    by simp
qed

section \<open>Helper facts\<close>

lemma asc_eq_iff [simp]: "asc a = asc b \<longleftrightarrow> a = b"
  by (simp add: asc_def inj_map_eq_map inj_on_def)

section \<open>Submission\<close>

text \<open>
  C3. The claim: \<open>send_transaction_with_retry\<close> never returns without a signature or a
  raised error. The code at three rate-limited attempts: it sleeps 2, 4 and 6 seconds,
  the loop ends, and the function returns \<open>None\<close>: neither a signature nor an error.
\<close>

theorem send_transaction_with_retry_rate_limited:
  "send_transaction_with_retry world_rate_limited [] [7] 3
     = (Inr None,
        [EvSendRaw [7], EvSleep 2, EvSendRaw [7], EvSleep 4, EvSendRaw [7], EvSleep 6])"
  by (simp add: send_transaction_with_retry_def send_loop.simps world_rate_limited_def
        world0_def asc_def starts_with_def)

section \<open>Quotes\<close>

text \<open>
  C4, as stated, fails: with a slippage of 50 percent \<open>get_best_route\<close> sends the quote
  request (5000 basis points) and returns the route.
\<close>

theorem get_best_route_slippage_counterexample:
  "get_best_route world_quote [] USDC_MINT SOL_MINT (asc ''1000000'') (Fin 50)
     = (Inr route0,
        [EvHttpGet (quote_api_url world_quote)
           (route_params USDC_MINT SOL_MINT (asc ''1000000'') 5000)])"
  by (simp add: get_best_route_def route_of_response_def world_quote_def world0_def trunc_def
        route0_def)

text \<open>
  C4, amended. \<open>validate_slippage\<close> fails with a ValueError for every slippage outside
  [0.1, 10.0], but \<open>get_best_route\<close> does not call it. \<open>get_best_route\<close> fails before any
  network call only when the output mint is not a well-formed address (a ValueError, the
  list of events unchanged); for a well-formed output mint and any finite slippage it
  sends exactly one quote request, carrying \<open>int(slippage * 100)\<close> basis points.
\<close>

theorem get_best_route_validation:
  "(PublicKey w output_mint = Inl e \<longrightarrow>
      get_best_route w tr input_mint output_mint amount slippage
        = (Inl (Exn ValueError (msg_bad_token_format @ output_mint)), tr))
   \<and> (PublicKey w output_mint = Inr k \<longrightarrow>
      snd (get_best_route w tr input_mint output_mint amount (Fin s))
        = tr @ [EvHttpGet (quote_api_url w)
                  (route_params input_mint output_mint amount (trunc (s * 100)))])
   \<and> (s < 1 / 10 \<or> 10 < s \<longrightarrow>
      validate_slippage to_float (SlipFloat (Fin s))
        = Inl (Exn ValueError (msg_bad_slippage @ msg_slippage_range)))"
  by (auto simp: get_best_route_def validate_slippage_def validate_slippage_body_def
        MIN_SLIPPAGE_def MAX_SLIPPAGE_def)

text \<open>An address that does not parse, a slippage of 50 on a good address, and
  \<open>validate_slippage\<close> on 50.\<close>

theorem get_best_route_validation_witness:
  "get_best_route (world0 \<lparr> PublicKey := (\<lambda>s. Inl (Exn ValueError (asc ''invalid public key''))) \<rparr>)
      [] USDC_MINT (asc ''abc'') (asc ''1'') (Fin 1)
     = (Inl (Exn ValueError (msg_bad_token_format @ asc ''abc'')), [])
   \<and> snd (get_best_route world0 [] USDC_MINT SOL_MINT (asc ''1'') (Fin 50))
     = [EvHttpGet (quote_api_url world0) (route_params USDC_MINT SOL_MINT (asc ''1'') 5000)]
   \<and> validate_slippage (py_float world0) (SlipFloat (Fin 50))
     = Inl (Exn ValueError (msg_bad_slippage @ msg_slippage_range))"
proof -
  let ?w = "world0 \<lparr> PublicKey := (\<lambda>s. Inl (Exn ValueError (asc ''invalid public key''))) \<rparr>"
  have a: "PublicKey ?w (asc ''abc'') = Inl (Exn ValueError (asc ''invalid public key''))"
    by simp
  have b: "PublicKey world0 SOL_MINT = Inr SOL_MINT" by (simp add: world0_def)
  have c: "(50::rat) < 1 / 10 \<or> 10 < (50::rat)" by simp
  have t: "trunc (50 * 100) = 5000" by (simp add: trunc_def)
  note g1 = get_best_route_validation
      [of ?w "asc ''abc''" "Exn ValueError (asc ''invalid public key'')" "[]" USDC_MINT
          "asc ''1''" "Fin 1" SOL_MINT 50 "py_float world0"]
  note g2 = get_best_route_validation
      [of world0 SOL_MINT "Exn ValueError []" "[]" USDC_MINT "asc ''1''" "Fin 1" SOL_MINT 50
          "py_float world0"]
  show ?thesis using g1 g2 a b c t by simp
qed

section \<open>Decimals\<close>




section \<open>The swap cycle\<close>

lemma get_quote_events:
  "snd (get_quote w tr im om a s) = tr
   \<or> (\<exists>bps. snd (get_quote w tr im om a s) = tr @ [EvHttpGet (quote_api_url w) (quote_params im om a bps)])"
  by (auto simp: get_quote_def split: sum.splits)

lemma get_swap_transaction_events:
  "snd (get_swap_transaction w tr wa q) = tr @ [EvHttpPost (swap_api_url w) (swap_request wa q)]"
  by (simp add: get_swap_transaction_def)

lemma send_swap_transaction_cases:
  "(fst (send_swap_transaction w tr t k) = None
      \<and> (snd (send_swap_transaction w tr t k) = tr
          \<or> (\<exists>raw. snd (send_swap_transaction w tr t k) = tr @ [EvSendRaw raw])))
   \<or> (\<exists>raw sig. send_raw_transaction w tr raw = Inr sig
         \<and> send_swap_transaction w tr t k = (Some sig, tr @ [EvSendRaw raw, EvSleep 2, EvSigStatus sig]))"
  by (auto simp: send_swap_transaction_def split: json.splits sum.splits)

lemma quoted_amount_params [simp]:
  "map_of (quote_params im om a bps) (asc ''amount'') = Some a"
  by (simp add: quote_params_def)

lemma swap_attempt_events:
  "\<exists>evs. snd (swap_attempt w tr im om a wa k s) = tr @ evs \<and> attempt_events w a evs
     \<and> (case fst (swap_attempt w tr im om a wa k s) of
          Inl m \<Rightarrow> m \<in> {msg_no_quote, msg_no_swap_tx, msg_swap_not_sent}
        | Inr sig \<Rightarrow> sig \<noteq> [] \<and> (\<exists>tr1 raw. send_raw_transaction w tr1 raw = Inr sig))"
proof -
  obtain q tr1 where gq: "get_quote w tr im om a s = (q, tr1)" by (cases "get_quote w tr im om a s")
  obtain e1 where e1: "tr1 = tr @ e1" "e1 = [] \<or> (\<exists>bps. e1 = [EvHttpGet (quote_api_url w) (quote_params im om a bps)])"
    using get_quote_events [of w tr im om a s] gq by auto
  show ?thesis
  proof (cases "py_truthy q")
    case False
    then show ?thesis using gq e1 by (auto simp: swap_attempt_def attempt_events_def)
  next
    case True
    obtain t tr2 where gs: "get_swap_transaction w tr1 wa q = (t, tr2)"
      by (cases "get_swap_transaction w tr1 wa q")
    have tr2: "tr2 = tr1 @ [EvHttpPost (swap_api_url w) (swap_request wa q)]"
      using get_swap_transaction_events [of w tr1 wa q] gs by simp
    show ?thesis
    proof (cases "py_truthy t")
      case False
      then show ?thesis using gq gs e1 tr2 True
        by (auto simp: swap_attempt_def attempt_events_def)
    next
      case tt: True
      from send_swap_transaction_cases [of w tr2 t k]
      show ?thesis
      proof (elim disjE exE conjE)
        assume "fst (send_swap_transaction w tr2 t k) = None"
           "snd (send_swap_transaction w tr2 t k) = tr2"
        then have "send_swap_transaction w tr2 t k = (None, tr2)" by (simp add: prod_eq_iff)
        then show ?thesis using gq gs e1 tr2 True tt
          by (auto simp: swap_attempt_def attempt_events_def)
      next
        fix raw
        assume "fst (send_swap_transaction w tr2 t k) = None"
           "snd (send_swap_transaction w tr2 t k) = tr2 @ [EvSendRaw raw]"
        then have "send_swap_transaction w tr2 t k = (None, tr2 @ [EvSendRaw raw])"
          by (simp add: prod_eq_iff)
        then show ?thesis using gq gs e1 tr2 True tt
          by (auto simp: swap_attempt_def attempt_events_def)
      next
        fix raw sig
        assume a: "send_raw_transaction w tr2 raw = Inr sig"
           "send_swap_transaction w tr2 t k = (Some sig, tr2 @ [EvSendRaw raw, EvSleep 2, EvSigStatus sig])"
        then show ?thesis using gq gs e1 tr2 True tt
          by (auto simp: swap_attempt_def attempt_events_def)
      qed
    qed
  qed
qed


lemma loop_events_step:
  "attempt_events w a e1 \<Longrightarrow> loop_events w a n e2 \<Longrightarrow> loop_events w a (Suc n) (e1 @ EvSleep 1 # e2)"
  by (auto simp: attempt_events_def loop_events_def)

lemma loop_events_last:
  "attempt_events w a e1 \<Longrightarrow> loop_events w a (Suc n) e1"
  by (auto simp: attempt_events_def loop_events_def)

lemma perform_swap_loop_events:
  "\<exists>evs. snd (perform_swap_loop w im om a wa k s m i tr) = tr @ evs
     \<and> loop_events w a (m - i) evs
     \<and> swap_outcome w (fst (perform_swap_loop w im om a wa k s m i tr)) (m - i) evs"
proof (induction w im om a wa k s m i tr rule: perform_swap_loop.induct)
  case (1 w im om a wa k s m i tr)
  show ?case
  proof (cases "m \<le> i")
    case True
    then show ?thesis
      by (simp add: perform_swap_loop.simps [of w im om a wa k s m i tr] loop_events_def swap_outcome_def)
  next
    case False
    obtain r tr' where sa: "swap_attempt w tr im om a wa k s = (r, tr')"
      by (cases "swap_attempt w tr im om a wa k s")
    from swap_attempt_events [of w tr im om a wa k s] sa
    obtain e1 where e1: "tr' = tr @ e1" "attempt_events w a e1"
      and out: "case r of Inl m \<Rightarrow> m \<in> {msg_no_quote, msg_no_swap_tx, msg_swap_not_sent}
          | Inr sig \<Rightarrow> sig \<noteq> [] \<and> (\<exists>tr1 raw. send_raw_transaction w tr1 raw = Inr sig)"
      by auto
    have mi: "m - i = Suc (m - Suc i)" using False by simp
    have c0: "count_list e1 (EvSleep 1) = 0" using e1(2) by (simp add: attempt_events_def)
    show ?thesis
    proof (cases r)
      case (Inr sig)
      then show ?thesis using False sa e1 out mi loop_events_last [OF e1(2), of "m - Suc i"]
        by (simp add: perform_swap_loop.simps [of w im om a wa k s m i tr] swap_outcome_def)
    next
      case (Inl msg)
      show ?thesis
      proof (cases "i + 1 < m")
        case last: False
        then have "m - i = 1" using False by simp
        then show ?thesis using last False Inl sa e1 out c0 loop_events_last [OF e1(2), of "m - Suc i"]
          by (simp add: perform_swap_loop.simps [of w im om a wa k s m i tr] swap_outcome_def)
      next
        case True
        from "1.IH" [OF False sa [symmetric] Inl True] 
        obtain e2 where e2: "snd (perform_swap_loop w im om a wa k s m (i + 1) (tr' @ [EvSleep 1])) = (tr' @ [EvSleep 1]) @ e2"
           "loop_events w a (m - (i + 1)) e2"
           "swap_outcome w (fst (perform_swap_loop w im om a wa k s m (i + 1) (tr' @ [EvSleep 1]))) (m - (i + 1)) e2"
          by auto
        have eq: "perform_swap_loop w im om a wa k s m i tr
                   = perform_swap_loop w im om a wa k s m (i + 1) (tr' @ [EvSleep 1])"
          using False Inl sa True
          by (simp add: perform_swap_loop.simps [of w im om a wa k s m i tr])
        have le: "loop_events w a (m - i) (e1 @ EvSleep 1 # e2)"
          using loop_events_step [OF e1(2), of "m - Suc i" e2] e2(2) mi by simp
        have so: "swap_outcome w (fst (perform_swap_loop w im om a wa k s m i tr)) (m - i) (e1 @ EvSleep 1 # e2)"
          using e2(3) eq True False c0 mi
          by (auto simp: swap_outcome_def split: sum.splits option.splits)
        show ?thesis using eq e2(1) e1(1) le so by simp
      qed
    qed
  qed
qed

lemma decrypt_nokey:
  "decrypt_private_key crypto_nokey k
     = (if 40 \<le> length k \<and> length k \<le> 90 then Inr k
        else Inl (Exn ValueError msg_no_encryption_key))"
  by (simp add: decrypt_private_key_def decrypt_attempt_def get_encryption_cipher_def crypto_nokey_def)




section \<open>Messages and links\<close>

lemma starts_with_cross_error [simp]: "starts_with [10060] (cross_error @ m)"
  by (simp add: starts_with_def cross_error_def)

lemma starts_with_swap_error_message [simp]: "starts_with [10060] (swap_error_message m)"
  by (simp add: swap_error_message_def starts_with_def msg_swap_liquidity_def
        msg_swap_slippage_def msg_swap_funds_def cross_error_def)

lemma starts_with_sell_error_message [simp]: "starts_with [10060] (sell_error_message w t m)"
  by (simp add: sell_error_message_def) (simp add: starts_with_def msg_sell_error_def)

lemma sell_checks_message: "sell_checks w p t = Inl m \<Longrightarrow> starts_with [10060] m"
  by (auto simp: sell_checks_def Let_def split: if_splits sum.splits option.splits)

lemma perform_swap_default_outcome:
  "(\<exists>e. fst (perform_swap w tr token amount wallet key slippage 2 is_selling) = Inl e)
   \<or> (\<exists>sig tr1 raw. fst (perform_swap w tr token amount wallet key slippage 2 is_selling) = Inr (Some sig)
        \<and> sig \<noteq> [] \<and> send_raw_transaction w tr1 raw = Inr sig)"
proof -
  let ?im = "if is_selling then token else SOL_MINT"
  let ?om = "if is_selling then SOL_MINT else token"
  let ?s = "if \<not> is_selling \<and> token = BONK_MINT then Fin 10 else slippage"
  let ?r = "perform_swap_loop w ?im ?om amount wallet key ?s 2 0 tr"
  from perform_swap_loop_events [of w ?im ?om amount wallet key ?s 2 0 tr]
  obtain evs where c: "swap_outcome w (fst ?r) (2 - 0) evs" by blast
  have r: "perform_swap w tr token amount wallet key slippage 2 is_selling = ?r"
    by (simp add: perform_swap_def)
  show ?thesis unfolding r using c
    by (cases "fst ?r") (auto simp: swap_outcome_def split: option.splits)
qed

lemma perform_swap_quotes:
  "\<exists>evs. snd (perform_swap w tr token amount wallet key slippage n is_selling) = tr @ evs
     \<and> (\<forall>e \<in> set evs. is_quote_call w e \<longrightarrow> quoted_amount e = Some amount)"
proof -
  let ?im = "if is_selling then token else SOL_MINT"
  let ?om = "if is_selling then SOL_MINT else token"
  let ?s = "if \<not> is_selling \<and> token = BONK_MINT then Fin 10 else slippage"
  from perform_swap_loop_events [of w ?im ?om amount wallet key ?s n 0 tr]
  show ?thesis unfolding perform_swap_def loop_events_def by blast
qed

lemma execute_swap_body_url:
  assumes "execute_swap_body w tr pub priv route = (Inr url, tr')"
  shows "\<exists>tr1 raw sig x. send_raw_transaction w tr1 raw = Inr sig
           \<and> tx_signature_of (Some sig) = Inr x \<and> url = solscan_url x"
proof -
  from assms obtain om am where
    om: "dict_get route (asc ''outputMint'') JNull = Inr om"
    and am: "dict_get route (asc ''inAmount'') JNull = Inr am"
    and tt: "py_truthy om \<and> py_truthy am"
    by (auto simp: execute_swap_body_def split: sum.splits if_splits)
  let ?p = "perform_swap w tr (py_str w om) (py_str w am) pub priv
              (if om = JStr BONK_MINT then Fin 10 else Fin 1) 2 False"
  obtain r tr1 where p: "?p = (r, tr1)" by (cases ?p)
  from assms om am tt p obtain sigo x where r: "r = Inr sigo"
    and x: "tx_signature_of sigo = Inr x" and u: "url = solscan_url x"
    by (auto simp: execute_swap_body_def split: sum.splits)
  from perform_swap_default_outcome [of w tr "py_str w om" "py_str w am" pub priv
         "if om = JStr BONK_MINT then Fin 10 else Fin 1" False] p r
  obtain sig tr2 raw where "sigo = Some sig" "send_raw_transaction w tr2 raw = Inr sig"
    by auto
  then show ?thesis using x u by blast
qed

lemma route_params_amount [simp]:
  "map_of (route_params im om a bps) (asc ''amount'') = Some a"
  by (simp add: route_params_def)

lemma get_best_route_quotes:
  "\<exists>evs. snd (get_best_route w tr im om a s) = tr @ evs
     \<and> (\<forall>e \<in> set evs. is_quote_call w e \<longrightarrow> quoted_amount e = Some a)"
  by (auto simp: get_best_route_def split: sum.splits)

lemma min_balance_eq: "min_balance d = 10 ^ d div 100"
proof -
  have "(1::rat) / 100 * of_nat (10 ^ d) = of_int (10 ^ d) / of_int 100" by simp
  then have "\<lfloor>(1::rat) / 100 * of_nat (10 ^ d)\<rfloor> = 10 ^ d div 100"
    by (simp only: floor_divide_of_int_eq)
  then show ?thesis by (simp add: min_balance_def trunc_def)
qed

lemma min_balance_nonneg: "0 \<le> min_balance d"
  by (simp add: min_balance_eq pos_imp_zdiv_nonneg_iff)

lemma capped_amount_le: "raw \<le> bal \<Longrightarrow> capped_amount bal d raw \<le> bal"
  using min_balance_nonneg [of d] by (simp add: capped_amount_def)

lemma sell_swap_spec:
  "\<exists>evs. snd (sell_swap w tr oi ta up priv raw s) = tr @ evs
     \<and> (\<forall>e \<in> set evs. is_quote_call w e \<longrightarrow> quoted_amount e = Some (str_int raw))
     \<and> sell_result_ok w (fst (sell_swap w tr oi ta up priv raw s))"
proof -
  obtain r tr1 where g: "get_best_route w tr ta SOL_MINT (str_int raw) s = (r, tr1)"
    by (cases "get_best_route w tr ta SOL_MINT (str_int raw) s")
  from get_best_route_quotes [of w tr ta SOL_MINT "str_int raw" s] g
  obtain e1 where e1: "tr1 = tr @ e1"
     "\<forall>e \<in> set e1. is_quote_call w e \<longrightarrow> quoted_amount e = Some (str_int raw)"
    by auto
  obtain p tr2 where p: "perform_swap w tr1 ta (str_int raw) up priv s 2 True = (p, tr2)"
    by (cases "perform_swap w tr1 ta (str_int raw) up priv s 2 True")
  from perform_swap_quotes [of w tr1 ta "str_int raw" up priv s 2 True] p
  obtain e2 where e2: "tr2 = tr1 @ e2"
     "\<forall>e \<in> set e2. is_quote_call w e \<longrightarrow> quoted_amount e = Some (str_int raw)"
    by auto
  have po: "(\<exists>e. p = Inl e) \<or> (\<exists>sig tr3 rw. p = Inr (Some sig) \<and> sig \<noteq> []
              \<and> send_raw_transaction w tr3 rw = Inr sig)"
    using perform_swap_default_outcome [of w tr1 ta "str_int raw" up priv s True] p by simp
  have cases: "sell_swap w tr oi ta up priv raw s \<in>
     {(sell_error_message w oi m, tr1) | m. True}
     \<union> {(cross_error @ msg_no_route @ oi, tr1)}
     \<union> {(sell_error_message w oi m, tr2) | m. True}
     \<union> {(solscan_url sig, tr2) | sig. \<exists>tr3 rw. send_raw_transaction w tr3 rw = Inr sig}"
    using g p po
    by (auto simp: sell_swap_def sell_swap_body_def split: sum.splits bool.splits option.splits)
  have t1: "\<exists>evs. tr1 = tr @ evs
     \<and> (\<forall>e \<in> set evs. is_quote_call w e \<longrightarrow> quoted_amount e = Some (str_int raw))"
    using e1 by blast
  have t2: "\<exists>evs. tr2 = tr @ evs
     \<and> (\<forall>e \<in> set evs. is_quote_call w e \<longrightarrow> quoted_amount e = Some (str_int raw))"
    using e1 e2 by (intro exI [of _ "e1 @ e2"]) auto
  from cases show ?thesis
    using t1 t2 by (auto simp: sell_result_ok_def) blast
qed

lemma sell_with_balance_spec:
  "\<exists>evs. snd (sell_with_balance w tr oi ta up priv amount bal dec) = tr @ evs
     \<and> (\<forall>e \<in> set evs. is_quote_call w e \<longrightarrow>
           (\<exists>raw. sell_raw_amount w amount dec = Inr raw \<and> raw \<le> bal
              \<and> quoted_amount e = Some (str_int (capped_amount bal dec raw))))
     \<and> (case fst (sell_with_balance w tr oi ta up priv amount bal dec) of
          Inl e \<Rightarrow> True
        | Inr s \<Rightarrow> sell_result_ok w s)"
proof (cases "bal \<noteq> 0 \<and> (\<exists>raw. sell_raw_amount w amount dec = Inr raw \<and> raw \<le> bal)")
  case False
  then have "snd (sell_with_balance w tr oi ta up priv amount bal dec) = tr
     \<and> (case fst (sell_with_balance w tr oi ta up priv amount bal dec) of
          Inl e \<Rightarrow> True
        | Inr s \<Rightarrow> starts_with [10060] s)"
    by (auto simp: sell_with_balance_def split: sum.splits)
  then show ?thesis by (auto simp: sell_result_ok_def split: sum.splits)
next
  case True
  then obtain raw where raw: "sell_raw_amount w amount dec = Inr raw" "raw \<le> bal" "bal \<noteq> 0"
    by blast
  let ?c = "capped_amount bal dec raw"
  let ?s = "sell_swap w tr oi ta up priv ?c (sell_slippage ta)"
  have eq: "sell_with_balance w tr oi ta up priv amount bal dec = (Inr (fst ?s), snd ?s)"
    using raw by (simp add: sell_with_balance_def split: prod.splits)
  from sell_swap_spec [of w tr oi ta up priv ?c "sell_slippage ta"]
  obtain evs where e: "snd ?s = tr @ evs"
     "\<forall>e \<in> set evs. is_quote_call w e \<longrightarrow> quoted_amount e = Some (str_int ?c)"
     "sell_result_ok w (fst ?s)"
    by blast
  show ?thesis unfolding eq using e raw by (intro exI [of _ evs]) auto
qed

lemma sell_with_balance_insufficient:
  assumes "sell_raw_amount w amount dec = Inr raw" and "bal < raw"
  shows "sell_with_balance w tr oi ta up priv amount bal dec
          = (Inr (if bal = 0 then cross_error @ msg_no_balance @ oi
                  else cross_error @ msg_insufficient
                       @ format_6f w (of_int bal / of_nat (10 ^ dec)) @ msg_requested
                       @ format_6f w (of_int raw / of_nat (10 ^ dec))), tr)"
  using assms by (simp add: sell_with_balance_def)

lemma execute_sell_body_spec:
  "\<exists>evs. snd (execute_sell_body w tr pub priv token amount) = tr @ evs
     \<and> (\<forall>e \<in> set evs. is_quote_call w e \<longrightarrow>
           (\<exists>up wp ta tp bal dec raw. sell_checks w pub token = Inr (up, wp, ta, tp)
              \<and> get_token_balance w tr wp tp = Inr (bal, dec)
              \<and> sell_raw_amount w amount dec = Inr raw \<and> raw \<le> bal
              \<and> quoted_amount e = Some (str_int (capped_amount bal dec raw))))
     \<and> (case fst (execute_sell_body w tr pub priv token amount) of
          Inl e \<Rightarrow> True
        | Inr s \<Rightarrow> sell_result_ok w s)"
proof (cases "sell_checks w pub token")
  case (Inl m)
  then show ?thesis using sell_checks_message [OF Inl]
    by (simp add: execute_sell_body_def sell_result_ok_def)
next
  case (Inr q)
  obtain up wp ta tp where q: "q = (up, wp, ta, tp)" by (cases q) auto
  show ?thesis
  proof (cases "get_token_balance w tr wp tp")
    case e: (Inl e)
    then show ?thesis using Inr q by (simp add: execute_sell_body_def)
  next
    case b: (Inr bd)
    obtain bal dec where bd: "bd = (bal, dec)" by (cases bd) auto
    let ?tr = "tr @ [EvTokenBalance wp tp]"
    have eq: "execute_sell_body w tr pub priv token amount
                = sell_with_balance w ?tr token ta up priv amount bal dec"
      using Inr q b bd by (simp add: execute_sell_body_def)
    from sell_with_balance_spec [of w ?tr token ta up priv amount bal dec]
    obtain evs where e: "snd (sell_with_balance w ?tr token ta up priv amount bal dec) = ?tr @ evs"
      "\<forall>e \<in> set evs. is_quote_call w e \<longrightarrow>
           (\<exists>raw. sell_raw_amount w amount dec = Inr raw \<and> raw \<le> bal
              \<and> quoted_amount e = Some (str_int (capped_amount bal dec raw)))"
      "case fst (sell_with_balance w ?tr token ta up priv amount bal dec) of
          Inl e \<Rightarrow> True | Inr s \<Rightarrow> sell_result_ok w s"
      by blast
    show ?thesis unfolding eq
      using e Inr q b bd by (intro exI [of _ "EvTokenBalance wp tp # evs"]) auto
  qed
qed


section \<open>A sale, run\<close>

lemma asc_Nil_iff [simp]: "asc s = [] \<longleftrightarrow> s = []"
  by (simp add: asc_def)

lemma strip_wallet0: "ascii_strip wallet0 = wallet0"
  by (simp add: ascii_strip_def wallet0_def asc_def)

lemma length_wallet0: "length wallet0 = 44"
  by (simp add: wallet0_def asc_def)

lemma sell_checks_ok:
  "sell_checks world_swap_ok wallet0 USDC_MINT = Inr (wallet0, wallet0, USDC_MINT, USDC_MINT)"
  by (simp add: sell_checks_def world_swap_ok_def world_submit_fails_def world_quote_def
        world0_def strip_wallet0 length_wallet0)

lemma balance_ok: "get_token_balance world_swap_ok tr wallet0 USDC_MINT = Inr (5000000, 6)"
  by (simp add: world_swap_ok_def)

lemma raw_int: "i \<le> 10 ^ 18 \<Longrightarrow> sell_raw_amount w (AmtInt i) d = Inr i"
  by (simp add: sell_raw_amount_def)

lemma swap_attempt_ok:
  "swap_attempt world_swap_ok tr USDC_MINT SOL_MINT a wallet0 key0 (Fin 1)
     = (Inr (asc ''abc123''),
        tr @ [EvHttpGet (quote_api_url world_swap_ok) (quote_params USDC_MINT SOL_MINT a 100),
              EvHttpPost (swap_api_url world_swap_ok) (swap_request wallet0 route0),
              EvSendRaw [1, 2], EvSleep 2, EvSigStatus (asc ''abc123'')])"
  by (simp add: swap_attempt_def get_quote_def quote_of_response_def get_swap_transaction_def
        swap_tx_of_response_def send_swap_transaction_def world_swap_ok_def
        world_submit_fails_def world_quote_def
        world0_def trunc_def route0_def swap_built_def decrypt_nokey
        quote_api_url_def swap_api_url_def)

lemma get_best_route_ok:
  "get_best_route world_swap_ok tr USDC_MINT SOL_MINT a (Fin 1)
     = (Inr route0,
        tr @ [EvHttpGet (quote_api_url world_swap_ok) (route_params USDC_MINT SOL_MINT a 100)])"
  by (simp add: get_best_route_def route_of_response_def world_swap_ok_def
        world_submit_fails_def world_quote_def world0_def route0_def trunc_def
        quote_api_url_def)

lemma route0_plan:
  "py_truthy route0 \<and> key_in (asc ''routePlan'') route0 = Inr True
   \<and> dict_get route0 (asc ''routePlan'') JNull = Inr (JArr [JObj [(asc ''percent'', JInt 100)]])"
  by (simp add: route0_def)

lemma perform_swap_ok:
  "perform_swap world_swap_ok tr USDC_MINT a wallet0 key0 (Fin 1) 2 True
     = (Inr (Some (asc ''abc123'')),
        tr @ [EvHttpGet (quote_api_url world_swap_ok) (quote_params USDC_MINT SOL_MINT a 100),
              EvHttpPost (swap_api_url world_swap_ok) (swap_request wallet0 route0),
              EvSendRaw [1, 2], EvSleep 2, EvSigStatus (asc ''abc123'')])"
  by (simp add: perform_swap_def perform_swap_loop.simps swap_attempt_ok)

lemma sell_swap_ok:
  "sell_swap world_swap_ok [EvTokenBalance wallet0 USDC_MINT] USDC_MINT USDC_MINT wallet0 key0 r (Fin 1)
     = (solscan_url (asc ''abc123''), sold_events r)"
  by (simp add: sell_swap_def sell_swap_body_def get_best_route_ok route0_plan perform_swap_ok
        sold_events_def)

lemma execute_sell_capped:
  "execute_sell world_swap_ok [] wallet0 key0 USDC_MINT (AmtInt 4995000)
     = (solscan_url (asc ''abc123''), sold_events 4990000)"
  by (simp add: execute_sell_def execute_sell_body_def sell_checks_ok balance_ok
        sell_with_balance_def raw_int capped_amount_def min_balance_eq sell_slippage_def
        sell_swap_ok)

section \<open>Outcomes of execute_swap and execute_sell\<close>

text \<open>
  C9. \<open>execute_swap\<close> and \<open>execute_sell\<close> return a string and never raise: an exception
  that leaves the body of their \<open>try\<close> becomes a message, and every message starts with
  the cross mark. A string that is not such a message is the explorer link
  \<open>https://solscan.io/tx/<signature>\<close> of a signature that the RPC node returned to a
  submission (\<open>execute_swap\<close> takes the text inside \<open>Signature(...)\<close> when the signature
  has that form).
\<close>

theorem execute_swap_sell_never_raise:
  "(case execute_swap_body w tr pub priv route of
      (Inl e, tr') \<Rightarrow>
         execute_swap w tr pub priv route = (swap_error_message (exn_msg e), tr')
         \<and> starts_with [10060] (swap_error_message (exn_msg e))
    | (Inr url, tr') \<Rightarrow>
         execute_swap w tr pub priv route = (url, tr')
         \<and> (\<exists>tr1 raw sig x. send_raw_transaction w tr1 raw = Inr sig
               \<and> tx_signature_of (Some sig) = Inr x \<and> url = solscan_url x))
   \<and> (case execute_sell_body w tr pub priv token amount of
      (Inl e, tr') \<Rightarrow>
         execute_sell w tr pub priv token amount = (cross_error @ exn_msg e, tr')
         \<and> starts_with [10060] (cross_error @ exn_msg e)
    | (Inr s, tr') \<Rightarrow>
         execute_sell w tr pub priv token amount = (s, tr')
         \<and> (starts_with [10060] s
              \<or> (\<exists>tr1 raw sig. send_raw_transaction w tr1 raw = Inr sig \<and> s = solscan_url sig)))"
proof -
  have a: "case execute_swap_body w tr pub priv route of
      (Inl e, tr') \<Rightarrow>
         execute_swap w tr pub priv route = (swap_error_message (exn_msg e), tr')
         \<and> starts_with [10060] (swap_error_message (exn_msg e))
    | (Inr url, tr') \<Rightarrow>
         execute_swap w tr pub priv route = (url, tr')
         \<and> (\<exists>tr1 raw sig x. send_raw_transaction w tr1 raw = Inr sig
               \<and> tx_signature_of (Some sig) = Inr x \<and> url = solscan_url x)"
  proof (cases "execute_swap_body w tr pub priv route")
    case (Pair r tr')
    show ?thesis
    proof (cases r)
      case (Inl e)
      then show ?thesis using Pair by (simp add: execute_swap_def)
    next
      case (Inr url)
      then show ?thesis using Pair execute_swap_body_url [of w tr pub priv route url tr']
        by (simp add: execute_swap_def)
    qed
  qed
  have b: "case execute_sell_body w tr pub priv token amount of
      (Inl e, tr') \<Rightarrow>
         execute_sell w tr pub priv token amount = (cross_error @ exn_msg e, tr')
         \<and> starts_with [10060] (cross_error @ exn_msg e)
    | (Inr s, tr') \<Rightarrow>
         execute_sell w tr pub priv token amount = (s, tr')
         \<and> (starts_with [10060] s
              \<or> (\<exists>tr1 raw sig. send_raw_transaction w tr1 raw = Inr sig \<and> s = solscan_url sig))"
  proof (cases "execute_sell_body w tr pub priv token amount")
    case (Pair r tr')
    show ?thesis
    proof (cases r)
      case (Inl e)
      then show ?thesis using Pair by (simp add: execute_sell_def)
    next
      case (Inr s)
      then show ?thesis using Pair execute_sell_body_spec [of w tr pub priv token amount]
        by (auto simp: execute_sell_def sell_result_ok_def)
    qed
  qed
  show ?thesis using a b by simp
qed


section \<open>The balance guard of execute_sell\<close>

text \<open>
  C1. For every sell request: each quote request that \<open>execute_sell\<close> sends (by
  \<open>get_best_route\<close> or by \<open>perform_swap\<close>) comes after the checks, the balance query and
  the conversion of the amount, for a requested raw amount that does not exceed the
  balance, and carries the capped amount: \<open>balance - buffer\<close> when selling the requested
  amount would leave less than the buffer \<open>10^decimals div 100\<close> (0.01 token), and the
  requested amount otherwise; that amount never exceeds the balance. When the requested
  raw amount exceeds the balance, the only event is the balance query (no quote request)
  and the result is an error message: the insufficient-balance message, unless the
  balance is zero (then the message that no balance was found).
\<close>

theorem execute_sell_balance_guard:
  "(\<exists>evs. snd (execute_sell w tr pub priv token amount) = tr @ evs
      \<and> (\<forall>e \<in> set evs. is_quote_call w e \<longrightarrow>
            (\<exists>up wp ta tp bal dec raw. sell_checks w pub token = Inr (up, wp, ta, tp)
               \<and> get_token_balance w tr wp tp = Inr (bal, dec)
               \<and> sell_raw_amount w amount dec = Inr raw \<and> raw \<le> bal
               \<and> quoted_amount e
                   = Some (str_int (if bal - raw < 10 ^ dec div 100
                                    then bal - 10 ^ dec div 100 else raw))
               \<and> (if bal - raw < 10 ^ dec div 100
                   then bal - 10 ^ dec div 100 else raw) \<le> bal)))
   \<and> (sell_checks w pub token = Inr (up, wp, ta, tp)
        \<and> get_token_balance w tr wp tp = Inr (bal, dec)
        \<and> sell_raw_amount w amount dec = Inr raw \<and> bal < raw \<longrightarrow>
        snd (execute_sell w tr pub priv token amount) = tr @ [EvTokenBalance wp tp]
        \<and> starts_with [10060] (fst (execute_sell w tr pub priv token amount))
        \<and> (bal \<noteq> 0 \<longrightarrow>
             fst (execute_sell w tr pub priv token amount)
               = cross_error @ msg_insufficient
                 @ format_6f w (of_int bal / of_nat (10 ^ dec)) @ msg_requested
                 @ format_6f w (of_int raw / of_nat (10 ^ dec))))"
proof -
  have s: "snd (execute_sell w tr pub priv token amount)
            = snd (execute_sell_body w tr pub priv token amount)"
    by (simp add: execute_sell_def split: prod.splits sum.splits)
  have c: "capped_amount b d r = (if b - r < 10 ^ d div 100 then b - 10 ^ d div 100 else r)"
    for b d r by (simp add: capped_amount_def min_balance_eq)
  from execute_sell_body_spec [of w tr pub priv token amount]
  obtain evs where e: "snd (execute_sell_body w tr pub priv token amount) = tr @ evs"
    "\<forall>e \<in> set evs. is_quote_call w e \<longrightarrow>
           (\<exists>up wp ta tp bal dec raw. sell_checks w pub token = Inr (up, wp, ta, tp)
              \<and> get_token_balance w tr wp tp = Inr (bal, dec)
              \<and> sell_raw_amount w amount dec = Inr raw \<and> raw \<le> bal
              \<and> quoted_amount e = Some (str_int (capped_amount bal dec raw)))"
    by blast
  have A: "\<exists>evs. snd (execute_sell w tr pub priv token amount) = tr @ evs
      \<and> (\<forall>e \<in> set evs. is_quote_call w e \<longrightarrow>
            (\<exists>up wp ta tp bal dec raw. sell_checks w pub token = Inr (up, wp, ta, tp)
               \<and> get_token_balance w tr wp tp = Inr (bal, dec)
               \<and> sell_raw_amount w amount dec = Inr raw \<and> raw \<le> bal
               \<and> quoted_amount e
                   = Some (str_int (if bal - raw < 10 ^ dec div 100
                                    then bal - 10 ^ dec div 100 else raw))
               \<and> (if bal - raw < 10 ^ dec div 100
                   then bal - 10 ^ dec div 100 else raw) \<le> bal))"
  proof (intro exI [of _ evs] conjI ballI impI)
    show "snd (execute_sell w tr pub priv token amount) = tr @ evs" using s e(1) by simp
  next
    fix ev assume "ev \<in> set evs" "is_quote_call w ev"
    with e(2) obtain up wp ta tp bal dec raw where
      h: "sell_checks w pub token = Inr (up, wp, ta, tp)"
         "get_token_balance w tr wp tp = Inr (bal, dec)"
         "sell_raw_amount w amount dec = Inr raw" "raw \<le> bal"
         "quoted_amount ev = Some (str_int (capped_amount bal dec raw))"
      by blast
    have "capped_amount bal dec raw \<le> bal" using capped_amount_le [OF h(4)] .
    then show "\<exists>up wp ta tp bal dec raw. sell_checks w pub token = Inr (up, wp, ta, tp)
               \<and> get_token_balance w tr wp tp = Inr (bal, dec)
               \<and> sell_raw_amount w amount dec = Inr raw \<and> raw \<le> bal
               \<and> quoted_amount ev
                   = Some (str_int (if bal - raw < 10 ^ dec div 100
                                    then bal - 10 ^ dec div 100 else raw))
               \<and> (if bal - raw < 10 ^ dec div 100
                   then bal - 10 ^ dec div 100 else raw) \<le> bal"
      using h unfolding c by blast
  qed
  have B: "sell_checks w pub token = Inr (up, wp, ta, tp)
        \<and> get_token_balance w tr wp tp = Inr (bal, dec)
        \<and> sell_raw_amount w amount dec = Inr raw \<and> bal < raw \<longrightarrow>
        snd (execute_sell w tr pub priv token amount) = tr @ [EvTokenBalance wp tp]
        \<and> starts_with [10060] (fst (execute_sell w tr pub priv token amount))
        \<and> (bal \<noteq> 0 \<longrightarrow>
             fst (execute_sell w tr pub priv token amount)
               = cross_error @ msg_insufficient
                 @ format_6f w (of_int bal / of_nat (10 ^ dec)) @ msg_requested
                 @ format_6f w (of_int raw / of_nat (10 ^ dec)))"
  proof (intro impI, elim conjE)
    assume h: "sell_checks w pub token = Inr (up, wp, ta, tp)"
         "get_token_balance w tr wp tp = Inr (bal, dec)"
         "sell_raw_amount w amount dec = Inr raw" "bal < raw"
    have "execute_sell_body w tr pub priv token amount
            = sell_with_balance w (tr @ [EvTokenBalance wp tp]) token ta up priv amount bal dec"
      using h by (simp add: execute_sell_body_def)
    then have "execute_sell w tr pub priv token amount
        = (if bal = 0 then cross_error @ msg_no_balance @ token
                  else cross_error @ msg_insufficient
                       @ format_6f w (of_int bal / of_nat (10 ^ dec)) @ msg_requested
                       @ format_6f w (of_int raw / of_nat (10 ^ dec)), tr @ [EvTokenBalance wp tp])"
      using sell_with_balance_insufficient [OF h(3) h(4)] by (simp add: execute_sell_def)
    then show "snd (execute_sell w tr pub priv token amount) = tr @ [EvTokenBalance wp tp]
        \<and> starts_with [10060] (fst (execute_sell w tr pub priv token amount))
        \<and> (bal \<noteq> 0 \<longrightarrow>
             fst (execute_sell w tr pub priv token amount)
               = cross_error @ msg_insufficient
                 @ format_6f w (of_int bal / of_nat (10 ^ dec)) @ msg_requested
                 @ format_6f w (of_int raw / of_nat (10 ^ dec)))"
      by simp
  qed
  show ?thesis using A B by blast
qed

text \<open>The guard at work: a request above the balance, and a request that would leave
  less than the buffer (5000000 held, 4995000 asked, 4990000 quoted).\<close>

theorem execute_sell_balance_guard_witness:
  "sell_checks world_swap_ok wallet0 USDC_MINT = Inr (wallet0, wallet0, USDC_MINT, USDC_MINT)
   \<and> get_token_balance world_swap_ok [] wallet0 USDC_MINT = Inr (5000000, 6)
   \<and> sell_raw_amount world_swap_ok (AmtInt 9000000) 6 = Inr 9000000
   \<and> (5000000::int) < 9000000
   \<and> execute_sell world_swap_ok [] wallet0 key0 USDC_MINT (AmtInt 9000000)
       = (cross_error @ msg_insufficient
            @ format_6f world_swap_ok (of_int 5000000 / of_nat (10 ^ 6)) @ msg_requested
            @ format_6f world_swap_ok (of_int 9000000 / of_nat (10 ^ 6)),
          [EvTokenBalance wallet0 USDC_MINT])
   \<and> EvHttpGet (quote_api_url world_swap_ok)
         (route_params USDC_MINT SOL_MINT (str_int 4990000) 100)
       \<in> set (snd (execute_sell world_swap_ok [] wallet0 key0 USDC_MINT (AmtInt 4995000)))
   \<and> is_quote_call world_swap_ok
         (EvHttpGet (quote_api_url world_swap_ok)
            (route_params USDC_MINT SOL_MINT (str_int 4990000) 100))
   \<and> quoted_amount
         (EvHttpGet (quote_api_url world_swap_ok)
            (route_params USDC_MINT SOL_MINT (str_int 4990000) 100))
       = Some (str_int 4990000)"
proof -
  let ?e = "EvHttpGet (quote_api_url world_swap_ok)
              (route_params USDC_MINT SOL_MINT (str_int 4990000) 100)"
  have h1: "sell_checks world_swap_ok wallet0 USDC_MINT
              = Inr (wallet0, wallet0, USDC_MINT, USDC_MINT)"
    by (rule sell_checks_ok)
  have h2: "get_token_balance world_swap_ok [] wallet0 USDC_MINT = Inr (5000000, 6)"
    by (rule balance_ok)
  have h3: "sell_raw_amount world_swap_ok (AmtInt 9000000) 6 = Inr 9000000"
    by (simp add: raw_int)
  have h4: "(5000000::int) < 9000000 \<and> (5000000::int) \<noteq> 0" by simp
  note big = execute_sell_balance_guard
      [where w = world_swap_ok and tr = "[]" and pub = wallet0 and priv = key0
         and token = USDC_MINT and amount = "AmtInt 9000000" and up = wallet0 and wp = wallet0
         and ta = USDC_MINT and tp = USDC_MINT and bal = 5000000 and dec = 6 and raw = 9000000]
  from big h1 h2 h3 h4
  have r1: "snd (execute_sell world_swap_ok [] wallet0 key0 USDC_MINT (AmtInt 9000000))
              = [EvTokenBalance wallet0 USDC_MINT]
          \<and> fst (execute_sell world_swap_ok [] wallet0 key0 USDC_MINT (AmtInt 9000000))
              = cross_error @ msg_insufficient
                @ format_6f world_swap_ok (of_int 5000000 / of_nat (10 ^ 6)) @ msg_requested
                @ format_6f world_swap_ok (of_int 9000000 / of_nat (10 ^ 6))"
    by simp
  note capped = execute_sell_balance_guard
      [where w = world_swap_ok and tr = "[]" and pub = wallet0 and priv = key0
         and token = USDC_MINT and amount = "AmtInt 4995000"]
  have run: "snd (execute_sell world_swap_ok [] wallet0 key0 USDC_MINT (AmtInt 4995000))
               = sold_events 4990000"
    by (simp add: execute_sell_capped)
  have mem: "?e \<in> set (sold_events 4990000)" by (simp add: sold_events_def)
  have q: "is_quote_call world_swap_ok ?e" by simp
  from capped run obtain evs where evs: "sold_events 4990000 = evs"
    and all: "\<forall>e \<in> set evs. is_quote_call world_swap_ok e \<longrightarrow>
            (\<exists>up wp ta tp bal dec raw.
               sell_checks world_swap_ok wallet0 USDC_MINT = Inr (up, wp, ta, tp)
               \<and> get_token_balance world_swap_ok [] wp tp = Inr (bal, dec)
               \<and> sell_raw_amount world_swap_ok (AmtInt 4995000) dec = Inr raw \<and> raw \<le> bal
               \<and> quoted_amount e
                   = Some (str_int (if bal - raw < 10 ^ dec div 100
                                    then bal - 10 ^ dec div 100 else raw))
               \<and> (if bal - raw < 10 ^ dec div 100
                   then bal - 10 ^ dec div 100 else raw) \<le> bal)"
    by auto
  from all mem q evs obtain wp tp bal dec raw where
    b: "get_token_balance world_swap_ok [] wp tp = Inr (bal, dec)"
    and r: "sell_raw_amount world_swap_ok (AmtInt 4995000) dec = Inr raw"
    and a: "quoted_amount ?e = Some (str_int (if bal - raw < 10 ^ dec div 100
                                    then bal - 10 ^ dec div 100 else raw))"
    by blast
  have bd: "bal = 5000000 \<and> dec = 6" using b by (simp add: world_swap_ok_def)
  have rw: "raw = 4995000" using r by (simp add: raw_int)
  have qa: "quoted_amount ?e = Some (str_int 4990000)" using a bd rw by simp
  show ?thesis using h1 h2 h3 r1 run mem q qa by (simp add: prod_eq_iff)
qed

section \<open>Token transfers\<close>





section \<open>A purchase, run\<close>

lemma swap_attempt_accepted:
  "swap_attempt world_swap_ok tr im om a wallet0 key0 (Fin 1)
     = (Inr (asc ''abc123''),
        tr @ [EvHttpGet (quote_api_url world_swap_ok) (quote_params im om a 100),
              EvHttpPost (swap_api_url world_swap_ok) (swap_request wallet0 route0),
              EvSendRaw [1, 2], EvSleep 2, EvSigStatus (asc ''abc123'')])"
  by (simp add: swap_attempt_def get_quote_def quote_of_response_def get_swap_transaction_def
        swap_tx_of_response_def send_swap_transaction_def world_swap_ok_def
        world_submit_fails_def world_quote_def
        world0_def trunc_def route0_def swap_built_def decrypt_nokey
        quote_api_url_def swap_api_url_def)

lemma mints_differ: "USDC_MINT \<noteq> BONK_MINT \<and> USDC_MINT \<noteq> []"
  by (simp add: USDC_MINT_def BONK_MINT_def)

lemma perform_swap_buy:
  "perform_swap world_swap_ok tr USDC_MINT a wallet0 key0 (Fin 1) 2 False
     = (Inr (Some (asc ''abc123'')),
        tr @ [EvHttpGet (quote_api_url world_swap_ok) (quote_params SOL_MINT USDC_MINT a 100),
              EvHttpPost (swap_api_url world_swap_ok) (swap_request wallet0 route0),
              EvSendRaw [1, 2], EvSleep 2, EvSigStatus (asc ''abc123'')])"
  by (simp add: perform_swap_def perform_swap_loop.simps swap_attempt_accepted mints_differ)

lemma tx_signature_abc: "tx_signature_of (Some (asc ''abc123'')) = Inr (asc ''abc123'')"
  by (simp add: tx_signature_of_def asc_def starts_with_def)

lemma execute_swap_body_buy:
  "execute_swap_body world_swap_ok [] wallet0 key0 route_buy
     = (Inr (solscan_url (asc ''abc123'')),
        [EvHttpGet (quote_api_url world_swap_ok)
           (quote_params SOL_MINT USDC_MINT (asc ''1000000000'') 100),
         EvHttpPost (swap_api_url world_swap_ok) (swap_request wallet0 route0),
         EvSendRaw [1, 2], EvSleep 2, EvSigStatus (asc ''abc123''),
         EvSleep 2, EvSigStatus (asc ''abc123'')])"
  by (simp add: execute_swap_body_def route_buy_def py_str_def perform_swap_buy
        tx_signature_abc mints_differ)

lemma execute_swap_body_unreachable:
  "execute_swap_body world0 [] wallet0 key0 JNull
     = (Inl (Exn AttributeError (asc ''NoneType'' @ asc '' object has no attribute get'')), [])"
  by (simp add: execute_swap_body_def)

text \<open>A purchase of one SOL worth of the token that the RPC node accepts with the
  signature \<open>abc123\<close>, a route that is not a dictionary, and a sale from an empty
  wallet.\<close>

theorem execute_swap_sell_never_raise_witness:
  "execute_swap world_swap_ok [] wallet0 key0 route_buy
     = (asc ''https://solscan.io/tx/'' @ asc ''abc123'',
        [EvHttpGet (quote_api_url world_swap_ok)
           (quote_params SOL_MINT USDC_MINT (asc ''1000000000'') 100),
         EvHttpPost (swap_api_url world_swap_ok) (swap_request wallet0 route0),
         EvSendRaw [1, 2], EvSleep 2, EvSigStatus (asc ''abc123''),
         EvSleep 2, EvSigStatus (asc ''abc123'')])
   \<and> starts_with [10060] (fst (execute_swap world0 [] wallet0 key0 JNull))
   \<and> starts_with [10060] (fst (execute_sell world0 [] wallet0 key0 USDC_MINT (AmtInt 1)))"
proof -
  note t1 = execute_swap_sell_never_raise
      [where w = world_swap_ok and tr = "[]" and pub = wallet0 and priv = key0
         and route = route_buy and token = USDC_MINT and amount = "AmtInt 1"]
  note t2 = execute_swap_sell_never_raise
      [where w = world0 and tr = "[]" and pub = wallet0 and priv = key0
         and route = JNull and token = USDC_MINT and amount = "AmtInt 1"]
  have a: "execute_swap world_swap_ok [] wallet0 key0 route_buy
     = (solscan_url (asc ''abc123''),
        [EvHttpGet (quote_api_url world_swap_ok)
           (quote_params SOL_MINT USDC_MINT (asc ''1000000000'') 100),
         EvHttpPost (swap_api_url world_swap_ok) (swap_request wallet0 route0),
         EvSendRaw [1, 2], EvSleep 2, EvSigStatus (asc ''abc123''),
         EvSleep 2, EvSigStatus (asc ''abc123'')])"
    using t1 by (simp add: execute_swap_body_buy)
  have b: "starts_with [10060] (fst (execute_swap world0 [] wallet0 key0 JNull))"
    using t2 by (simp add: execute_swap_body_unreachable)
  have sc: "sell_checks world0 wallet0 USDC_MINT = Inr (wallet0, wallet0, USDC_MINT, USDC_MINT)"
    by (simp add: sell_checks_def world0_def strip_wallet0 length_wallet0)
  have body: "execute_sell_body world0 [] wallet0 key0 USDC_MINT (AmtInt 1)
     = (Inr (cross_error @ msg_no_balance @ USDC_MINT), [EvTokenBalance wallet0 USDC_MINT])"
    by (simp add: execute_sell_body_def sc sell_with_balance_def) (simp add: world0_def sell_with_balance_def)
  have c: "starts_with [10060] (fst (execute_sell world0 [] wallet0 key0 USDC_MINT (AmtInt 1)))"
    using t2 by (simp add: body)
  show ?thesis using a b c by (simp add: solscan_url_def)
qed


end
